theory Spec2Isabelle
  imports Complex_Main "HOL-Library.Multiset"
begin

section \<open>Numbers, missing values and pandas series\<close>

text \<open>
  The pipeline computes with Python floats and pandas float64 series. Floats are idealised
  as real numbers: rounding error, overflow and signed zeros are outside the model. The one
  exception is the z-score step of the ranker, whose guard compares a computed standard
  deviation with zero; that step is modelled a second time with every operation rounded to
  the nearest double.

  A nullable number (\<open>float | None\<close>, or a float64 cell that may hold NaN) is a
  \<open>real option\<close>; pandas treats \<open>None\<close> and NaN alike as missing, and so does the model.
\<close>

text \<open>\<open>Series.dropna()\<close>: the present values, in order.\<close>

definition dropna :: "real option list \<Rightarrow> real list" where
  "dropna col = concat (map (\<lambda>v. case v of None \<Rightarrow> [] | Some x \<Rightarrow> [x]) col)"

text \<open>
  The sample standard deviation of pandas (\<open>ddof = 1\<close>) over values that are all present:
  NaN (here \<open>None\<close>) when there are fewer than two of them.
\<close>

definition sample_std :: "real list \<Rightarrow> real option" where
  "sample_std xs =
     (if length xs < 2 then None
      else (let avg = sum_list xs / real (length xs)
            in Some (sqrt (sum_list (map (\<lambda>x. (avg - x)\<^sup>2) xs) / (real (length xs) - 1)))))"

text \<open>\<open>xs.iloc[-k]\<close> for \<open>1 \<le> k \<le> len(xs)\<close>; every use below is behind a length check.\<close>

definition iloc_from_end :: "'a list \<Rightarrow> nat \<Rightarrow> 'a" where
  "iloc_from_end xs k = xs ! (length xs - k)"

section \<open>config/settings.py\<close>

definition MIN_MARKET_CAP :: real where "MIN_MARKET_CAP = 2000000000"
definition MIN_AVG_DAILY_VOLUME_USD :: real where "MIN_AVG_DAILY_VOLUME_USD = 5000000"
definition MAX_DEBT_TO_EQUITY :: real where "MAX_DEBT_TO_EQUITY = 3"
definition MIN_PRICE :: real where "MIN_PRICE = 5"

definition MOMENTUM_LONG_WINDOW_DAYS :: nat where "MOMENTUM_LONG_WINDOW_DAYS = 252"
definition MOMENTUM_SHORT_WINDOW_DAYS :: nat where "MOMENTUM_SHORT_WINDOW_DAYS = 21"
definition VOLATILITY_WINDOW_DAYS :: nat where "VOLATILITY_WINDOW_DAYS = 63"

definition w_mom :: real where "w_mom = 40 / 100"
definition w_qua :: real where "w_qua = 35 / 100"
definition w_vol :: real where "w_vol = 25 / 100"

definition TOP_N_PER_SECTOR :: int where "TOP_N_PER_SECTOR = 3"

section \<open>data/skeleton/base_provider.py\<close>

text \<open>One row of the OHLCV frame returned by \<open>get_price_history\<close>.\<close>

record bar =
  bar_open :: "real option"
  bar_high :: "real option"
  bar_low :: "real option"
  bar_close :: "real option"
  bar_volume :: "real option"

text \<open>
  The fundamentals dict: a key may be missing, or present with the value \<open>None\<close>.
  \<open>dict_get\<close> is \<open>dict.get(key)\<close>, which returns \<open>None\<close> in both cases.
\<close>

type_synonym fundamentals = "string \<Rightarrow> real option option"

definition dict_get :: "fundamentals \<Rightarrow> string \<Rightarrow> real option" where
  "dict_get d k = (case d k of None \<Rightarrow> None | Some v \<Rightarrow> v)"

text \<open>
  The provider interface, by its documented contract: a fetch returns its value, or raises
  \<open>DataProviderError\<close> with a message (\<open>Inl\<close>).
\<close>

record DataProvider =
  get_price_history :: "string \<Rightarrow> string \<Rightarrow> string \<Rightarrow> string + bar list"
  get_fundamentals :: "string \<Rightarrow> string + fundamentals"

section \<open>agents/quant/agent5\_factors.py\<close>

record FactorScores =
  ticker :: string
  momentum :: "real option"
  quality :: "real option"
  low_vol :: "real option"

definition compute_momentum :: "bar list \<Rightarrow> real option" where
  "compute_momentum prices =
     (let close = dropna (map bar_close prices)
      in if length close < MOMENTUM_LONG_WINDOW_DAYS then None
         else (let price_12m_ago = iloc_from_end close MOMENTUM_LONG_WINDOW_DAYS;
                   price_1m_ago = iloc_from_end close MOMENTUM_SHORT_WINDOW_DAYS
               in if price_12m_ago \<le> 0 then None
                  else Some ((price_1m_ago - price_12m_ago) / price_12m_ago)))"

definition compute_quality :: "fundamentals \<Rightarrow> real option" where
  "compute_quality fundamentals =
     (let roe = dict_get fundamentals ''return_on_equity'';
          dte = dict_get fundamentals ''debt_to_equity''
      in if roe = None \<and> dte = None then None
         else (let components =
                     (case roe of None \<Rightarrow> []
                      | Some r \<Rightarrow> [(max (- (5 / 10)) (min 1 r) + 5 / 10) / (15 / 10)])
                     @ (case dte of None \<Rightarrow> []
                        | Some d \<Rightarrow> [1 - max 0 (min 3 d) / 3])
               in Some (sum_list components / real (length components))))"

text \<open>
  \<open>Series.pct_change()\<close> divides each value by its predecessor. In float arithmetic a zero
  predecessor gives NaN for \<open>0/0\<close> and an infinity otherwise; the three kinds of cell are
  kept apart because \<open>dropna\<close> removes the first kind only.
\<close>

datatype ret = Finite real | Infinite | NaN

fun pct_change_from :: "real \<Rightarrow> real list \<Rightarrow> ret list" where
  "pct_change_from prev [] = []"
| "pct_change_from prev (x # xs) =
     (if prev \<noteq> 0 then Finite (x / prev - 1)
      else if x = 0 then NaN else Infinite) # pct_change_from x xs"

fun pct_change :: "real list \<Rightarrow> ret list" where
  "pct_change [] = []"
| "pct_change (x # xs) = NaN # pct_change_from x xs"

definition dropna_ret :: "ret list \<Rightarrow> ret list" where
  "dropna_ret rs = filter (\<lambda>r. r \<noteq> NaN) rs"

definition finite_values :: "ret list \<Rightarrow> real list" where
  "finite_values rs = concat (map (\<lambda>r. case r of Finite x \<Rightarrow> [x] | _ \<Rightarrow> []) rs)"

text \<open>
  The standard deviation of a series that holds an infinity is NaN. The function returns
  that NaN as a float; it is \<open>None\<close> here, since the ranker treats both as missing.
\<close>

definition compute_volatility :: "bar list \<Rightarrow> real option" where
  "compute_volatility prices =
     (let close = dropna (map bar_close prices)
      in if length close < VOLATILITY_WINDOW_DAYS then None
         else (let recent_close = drop (length close - VOLATILITY_WINDOW_DAYS) close;
                   daily_returns = dropna_ret (pct_change recent_close)
               in if length daily_returns < 10 then None
                  else if Infinite \<in> set daily_returns then None
                  else map_option (\<lambda>s. s * sqrt 252) (sample_std (finite_values daily_returns))))"

definition score_single :: "string \<Rightarrow> DataProvider \<Rightarrow> string \<Rightarrow> string \<Rightarrow> FactorScores" where
  "score_single tkr data_provider start_date end_date =
     (case get_price_history data_provider tkr start_date end_date of
        Inl e \<Rightarrow> \<lparr>ticker = tkr, momentum = None, quality = None, low_vol = None\<rparr>
      | Inr prices \<Rightarrow>
          (case get_fundamentals data_provider tkr of
             Inl e \<Rightarrow> \<lparr>ticker = tkr, momentum = None, quality = None, low_vol = None\<rparr>
           | Inr fundamentals \<Rightarrow>
               \<lparr>ticker = tkr,
                momentum = compute_momentum prices,
                quality = compute_quality fundamentals,
                low_vol = compute_volatility prices\<rparr>))"

section \<open>agents/quant/agent4\_screener.py\<close>

record ScreeningResult =
  sr_ticker :: string
  passed :: bool
  reason :: string

text \<open>
  The reasons are f-strings. Python's number formatting is a parameter of the model:
  \<open>fmt d x\<close> is \<open>format(x, '.df')\<close> and \<open>str_of x\<close> is \<open>str(x)\<close>.
\<close>

definition screen_single ::
  "(nat \<Rightarrow> real \<Rightarrow> string) \<Rightarrow> (real \<Rightarrow> string) \<Rightarrow> string \<Rightarrow> DataProvider \<Rightarrow> ScreeningResult" where
  "screen_single fmt str_of tkr data_provider =
     (case get_fundamentals data_provider tkr of
        Inl e \<Rightarrow> \<lparr>sr_ticker = tkr, passed = False, reason = ''Data unavailable: '' @ e\<rparr>
      | Inr fundamentals \<Rightarrow>
          (case dict_get fundamentals ''price'' of
             None \<Rightarrow> \<lparr>sr_ticker = tkr, passed = False, reason = ''Price unavailable''\<rparr>
           | Some price \<Rightarrow>
               if price < MIN_PRICE
               then \<lparr>sr_ticker = tkr, passed = False,
                     reason = ''Price $'' @ fmt 2 price @ '' below minimum $'' @ str_of MIN_PRICE\<rparr>
               else
          (case dict_get fundamentals ''market_cap'' of
             None \<Rightarrow> \<lparr>sr_ticker = tkr, passed = False, reason = ''Market cap unavailable''\<rparr>
           | Some market_cap \<Rightarrow>
               if market_cap < MIN_MARKET_CAP
               then \<lparr>sr_ticker = tkr, passed = False,
                     reason = ''Market cap $'' @ fmt 1 (market_cap / 1000000000)
                              @ ''B below minimum $'' @ fmt 1 (MIN_MARKET_CAP / 1000000000) @ ''B''\<rparr>
               else
          (case dict_get fundamentals ''avg_daily_volume'' of
             None \<Rightarrow> \<lparr>sr_ticker = tkr, passed = False, reason = ''Average volume unavailable''\<rparr>
           | Some avg_vol \<Rightarrow>
               if avg_vol < MIN_AVG_DAILY_VOLUME_USD
               then \<lparr>sr_ticker = tkr, passed = False,
                     reason = ''Avg daily volume $'' @ fmt 1 (avg_vol / 1000000)
                              @ ''M below minimum $'' @ fmt 1 (MIN_AVG_DAILY_VOLUME_USD / 1000000) @ ''M''\<rparr>
               else
          (case dict_get fundamentals ''debt_to_equity'' of
             Some dte \<Rightarrow>
               if dte > MAX_DEBT_TO_EQUITY
               then \<lparr>sr_ticker = tkr, passed = False,
                     reason = ''Debt/equity '' @ fmt 1 dte @ '' exceeds maximum '' @ str_of MAX_DEBT_TO_EQUITY\<rparr>
               else \<lparr>sr_ticker = tkr, passed = True, reason = ''All filters passed''\<rparr>
           | None \<Rightarrow> \<lparr>sr_ticker = tkr, passed = True, reason = ''All filters passed''\<rparr>)))))"

section \<open>agents/scoring/agent6\_ranker.py\<close>

record RankedStock =
  rs_ticker :: string
  composite_score :: real
  momentum_z :: real
  quality_z :: real
  low_vol_z :: real
  rank :: int

text \<open>Step 1: the volatility column is negated; a missing cell stays missing.\<close>

definition invert_low_vol :: "FactorScores \<Rightarrow> FactorScores" where
  "invert_low_vol s = s\<lparr>low_vol := (case low_vol s of None \<Rightarrow> None | Some v \<Rightarrow> Some (- v))\<rparr>"

text \<open>Step 2: \<open>dropna(subset=factor_cols, how="all")\<close>.\<close>

definition all_missing :: "FactorScores \<Rightarrow> bool" where
  "all_missing s \<longleftrightarrow> momentum s = None \<and> quality s = None \<and> low_vol s = None"

definition dropna_all :: "FactorScores list \<Rightarrow> FactorScores list" where
  "dropna_all df = filter (\<lambda>s. \<not> all_missing s) df"

text \<open>\<open>Series.mean(skipna=True)\<close> and \<open>Series.std(skipna=True)\<close>; \<open>None\<close> is NaN.\<close>

definition series_mean :: "real option list \<Rightarrow> real option" where
  "series_mean col =
     (let xs = dropna col in if xs = [] then None else Some (sum_list xs / real (length xs)))"

definition series_std :: "real option list \<Rightarrow> real option" where
  "series_std col = sample_std (dropna col)"

text \<open>
  Step 3, for one column. pandas does not raise on a division by zero, it yields an
  infinity or NaN; the model reports it as a fault, so that its absence is a theorem.
  \<open>series - mean\<close> is NaN where the cell or the mean is NaN, and \<open>fillna(0.0)\<close> turns
  every NaN into 0.
\<close>

datatype arith_fault = DivisionByZero

definition series_sub :: "real option list \<Rightarrow> real option \<Rightarrow> real option list" where
  "series_sub col m =
     map (\<lambda>v. case v of None \<Rightarrow> None
              | Some x \<Rightarrow> (case m of None \<Rightarrow> None | Some mu \<Rightarrow> Some (x - mu))) col"

definition series_div :: "real option list \<Rightarrow> real \<Rightarrow> arith_fault + real option list" where
  "series_div col d =
     (if d = 0 then Inl DivisionByZero
      else Inr (map (\<lambda>v. case v of None \<Rightarrow> None | Some x \<Rightarrow> Some (x / d)) col))"

definition fillna :: "real \<Rightarrow> real option list \<Rightarrow> real list" where
  "fillna c col = map (\<lambda>v. case v of None \<Rightarrow> c | Some x \<Rightarrow> x) col"

definition zscore_col :: "real option list \<Rightarrow> arith_fault + real list" where
  "zscore_col series =
     (let mean = series_mean series
      in case series_std series of
           None \<Rightarrow> Inr (replicate (length series) 0)
         | Some std \<Rightarrow>
             if std = 0 then Inr (replicate (length series) 0)
             else (case series_div (series_sub series mean) std of
                     Inl e \<Rightarrow> Inl e
                   | Inr col_z \<Rightarrow> Inr (fillna 0 col_z)))"

text \<open>The frame after steps 3 and 4: one row per retained ticker, in input order.\<close>

record scored_row =
  row_ticker :: string
  row_momentum_z :: real
  row_quality_z :: real
  row_low_vol_z :: real
  row_composite :: real

definition build_row ::
  "FactorScores list \<Rightarrow> real list \<Rightarrow> real list \<Rightarrow> real list \<Rightarrow> nat \<Rightarrow> scored_row" where
  "build_row df mz qz vz i =
     \<lparr>row_ticker = ticker (df ! i),
      row_momentum_z = mz ! i,
      row_quality_z = qz ! i,
      row_low_vol_z = vz ! i,
      row_composite = w_mom * (mz ! i) + w_qua * (qz ! i) + w_vol * (vz ! i)\<rparr>"

definition score_frame :: "FactorScores list \<Rightarrow> arith_fault + scored_row list" where
  "score_frame df =
     (case zscore_col (map momentum df) of
        Inl e \<Rightarrow> Inl e
      | Inr mz \<Rightarrow>
          (case zscore_col (map quality df) of
             Inl e \<Rightarrow> Inl e
           | Inr qz \<Rightarrow>
               (case zscore_col (map low_vol df) of
                  Inl e \<Rightarrow> Inl e
                | Inr vz \<Rightarrow> Inr (map (build_row df mz qz vz) [0..<length df]))))"

text \<open>
  Step 5. \<open>sort_values("composite_score", ascending=False)\<close> sorts with the default
  \<open>kind="quicksort"\<close>, which pandas documents as not stable. The routine that computes
  the sorting permutation from the key column is therefore a parameter \<open>argsort\<close>; what is
  known of it is \<open>valid_argsort\<close>: it returns a permutation of the positions that lists
  the keys in descending order.
\<close>

definition valid_argsort :: "(real list \<Rightarrow> nat list) \<Rightarrow> bool" where
  "valid_argsort argsort \<longleftrightarrow>
     (\<forall>keys. mset (argsort keys) = mset [0..<length keys]
            \<and> sorted (rev (map (\<lambda>i. keys ! i) (argsort keys))))"

definition sort_values :: "(real list \<Rightarrow> nat list) \<Rightarrow> scored_row list \<Rightarrow> scored_row list" where
  "sort_values argsort rows = map (\<lambda>i. rows ! i) (argsort (map row_composite rows))"

text \<open>\<open>df.head(n)\<close>: the first \<open>n\<close> rows, or all but the last \<open>-n\<close> rows when \<open>n\<close> is negative.\<close>

definition head :: "int \<Rightarrow> 'a list \<Rightarrow> 'a list" where
  "head n xs = (if 0 \<le> n then take (nat n) xs else take (length xs - nat (- n)) xs)"

text \<open>Python's \<open>round(x, 4)\<close> on reals: to the nearest multiple of 1/10000, halves to even.\<close>

definition round_half_even :: "real \<Rightarrow> int" where
  "round_half_even y =
     (let f = \<lfloor>y\<rfloor>; d = y - of_int f
      in if d < 1 / 2 then f else if 1 / 2 < d then f + 1 else if even f then f else f + 1)"

definition round4 :: "real \<Rightarrow> real" where
  "round4 x = of_int (round_half_even (x * 10000)) / 10000"

definition to_ranked :: "nat \<times> scored_row \<Rightarrow> RankedStock" where
  "to_ranked pr =
     (case pr of (pos, row) \<Rightarrow>
        \<lparr>rs_ticker = row_ticker row,
         composite_score = round4 (row_composite row),
         momentum_z = round4 (row_momentum_z row),
         quality_z = round4 (row_quality_z row),
         low_vol_z = round4 (row_low_vol_z row),
         rank = int pos + 1\<rparr>)"

definition rank_stocks ::
  "(real list \<Rightarrow> nat list) \<Rightarrow> FactorScores list \<Rightarrow> int option \<Rightarrow> arith_fault + RankedStock list" where
  "rank_stocks argsort factor_scores top_n =
     (let n = (case top_n of None \<Rightarrow> TOP_N_PER_SECTOR
               | Some k \<Rightarrow> if k = 0 then TOP_N_PER_SECTOR else k)
      in if factor_scores = [] then Inr []
         else (let df = dropna_all (map invert_low_vol factor_scores)
               in if df = [] then Inr []
                  else (case score_frame df of
                          Inl e \<Rightarrow> Inl e
                        | Inr rows \<Rightarrow>
                            Inr (map to_ranked (head n (enumerate 0 (sort_values argsort rows)))))))"

section \<open>The z-score step in double precision\<close>

text \<open>
  \<open>fl x\<close> is the double nearest to the real \<open>x\<close>: 53 significant bits, ties to the even
  significand. The exponent is unbounded, so overflow and subnormal numbers are outside
  the model; neither occurs in the examples.
\<close>

definition fl :: "real \<Rightarrow> real" where
  "fl x = (if x = 0 then 0
           else (let u = 2 powr (of_int \<lfloor>log 2 \<bar>x\<bar>\<rfloor> - 52)
                 in of_int (round_half_even (x / u)) * u))"

text \<open>
  \<open>Series.mean\<close> and \<open>Series.std\<close> on a float64 column, as pandas computes them: the sum is
  accumulated from left to right, the mean is \<open>sum / count\<close>, and the variance is the
  two-pass \<open>sum((avg - x) ** 2) / (count - 1)\<close>; every operation rounds.
\<close>

definition fsum :: "real list \<Rightarrow> real" where
  "fsum xs = foldl (\<lambda>acc x. fl (acc + x)) 0 xs"

definition series_mean_fl :: "real option list \<Rightarrow> real option" where
  "series_mean_fl col =
     (let xs = dropna col
      in if xs = [] then None else Some (fl (fsum xs / real (length xs))))"

definition series_std_fl :: "real option list \<Rightarrow> real option" where
  "series_std_fl col =
     (let xs = dropna col
      in if length xs < 2 then None
         else (let avg = fl (fsum xs / real (length xs));
                   sqr = map (\<lambda>x. fl (fl (avg - x) * fl (avg - x))) xs
               in Some (fl (sqrt (fl (fsum sqr / (real (length xs) - 1)))))))"

definition series_sub_fl :: "real option list \<Rightarrow> real option \<Rightarrow> real option list" where
  "series_sub_fl col m =
     map (\<lambda>v. case v of None \<Rightarrow> None
              | Some x \<Rightarrow> (case m of None \<Rightarrow> None | Some mu \<Rightarrow> Some (fl (x - mu)))) col"

definition series_div_fl :: "real option list \<Rightarrow> real \<Rightarrow> arith_fault + real option list" where
  "series_div_fl col d =
     (if d = 0 then Inl DivisionByZero
      else Inr (map (\<lambda>v. case v of None \<Rightarrow> None | Some x \<Rightarrow> Some (fl (x / d))) col))"

text \<open>Step 3 for one column, as \<open>zscore_col\<close>, with the rounded operations.\<close>

definition zscore_col_fl :: "real option list \<Rightarrow> arith_fault + real list" where
  "zscore_col_fl series =
     (let mean = series_mean_fl series
      in case series_std_fl series of
           None \<Rightarrow> Inr (replicate (length series) 0)
         | Some std \<Rightarrow>
             if std = 0 then Inr (replicate (length series) 0)
             else (case series_div_fl (series_sub_fl series mean) std of
                     Inl e \<Rightarrow> Inl e
                   | Inr col_z \<Rightarrow> Inr (fillna 0 col_z)))"

text \<open>Step 4 for one row: the products and sums of the composite score, each rounded.\<close>

definition composite_fl :: "real \<Rightarrow> real \<Rightarrow> real \<Rightarrow> real" where
  "composite_fl mz qz vz = fl (fl (fl (fl w_mom * mz) + fl (fl w_qua * qz)) + fl (fl w_vol * vz))"

section \<open>Example inputs\<close>

text \<open>A price frame whose closes are \<open>f 0, f 1, \<dots>, f (n - 1)\<close>, every other column empty.\<close>

definition closes_frame :: "(nat \<Rightarrow> real) \<Rightarrow> nat \<Rightarrow> bar list" where
  "closes_frame f n =
     map (\<lambda>k. \<lparr>bar_open = None, bar_high = None, bar_low = None,
                bar_close = Some (f k), bar_volume = None\<rparr>) [0..<n]"

definition rising :: "bar list" where
  "rising = closes_frame (\<lambda>k. real k + 1) 252"

definition falling :: "bar list" where
  "falling = closes_frame (\<lambda>k. 252 - real k) 252"

definition from_zero :: "bar list" where
  "from_zero = closes_frame real 252"

definition fund_of :: "real option \<Rightarrow> real option \<Rightarrow> fundamentals" where
  "fund_of roe dte =
     (\<lambda>k. if k = ''return_on_equity'' then Some roe
          else if k = ''debt_to_equity'' then Some dte else None)"

text \<open>
  Two sorting routines that meet \<open>valid_argsort\<close>: one keeps tied keys in input order,
  the other reverses them.
\<close>

definition stable_argsort :: "real list \<Rightarrow> nat list" where
  "stable_argsort keys = sort_key (\<lambda>i. - (keys ! i)) [0..<length keys]"

definition tie_reversing_argsort :: "real list \<Rightarrow> nat list" where
  "tie_reversing_argsort keys = rev (sort_key (\<lambda>i. keys ! i) [0..<length keys])"

definition make_score :: "string \<Rightarrow> real option \<Rightarrow> real option \<Rightarrow> real option \<Rightarrow> FactorScores" where
  "make_score t m q v = \<lparr>ticker = t, momentum = m, quality = q, low_vol = v\<rparr>"

definition only :: "FactorScores list" where
  "only = [make_score ''ONLY'' (Some (2 / 10)) (Some (5 / 10)) (Some (15 / 100))]"

text \<open>
  Four tickers that differ in momentum only; \<open>A\<close> and \<open>B\<close> have the same factor values and
  so the same composite score, in floating point as well.
\<close>

definition tied :: "FactorScores list" where
  "tied = [make_score ''A'' (Some 0) (Some (1 / 2)) (Some (1 / 4)),
           make_score ''B'' (Some 0) (Some (1 / 2)) (Some (1 / 4)),
           make_score ''C'' (Some 2) (Some (1 / 2)) (Some (1 / 4)),
           make_score ''D'' (Some 3) (Some (1 / 2)) (Some (1 / 4))]"

text \<open>
  Three tickers with the same factors. The momentum is the Python float \<open>0.1\<close>, that is the
  double nearest to 1/10; 1/2 and 1/4 are doubles themselves.
\<close>

definition tenth_universe :: "FactorScores list" where
  "tenth_universe = [make_score ''A'' (Some (fl (1 / 10))) (Some (1 / 2)) (Some (1 / 4)),
                     make_score ''B'' (Some (fl (1 / 10))) (Some (1 / 2)) (Some (1 / 4)),
                     make_score ''C'' (Some (fl (1 / 10))) (Some (1 / 2)) (Some (1 / 4))]"

definition none_only :: "FactorScores list" where
  "none_only = [make_score ''BAD'' None None None, make_score ''WORSE'' None None None]"

definition mixed :: "FactorScores list" where
  "mixed = [make_score ''A'' (Some 0) None (Some 1),
            make_score ''D'' None None None,
            make_score ''B'' (Some 2) (Some 1) (Some 1),
            make_score ''C'' (Some 4) (Some 1) None]"

text \<open>Providers in the manner of the mock provider of the tests.\<close>

definition failing_provider :: DataProvider where
  "failing_provider =
     \<lparr>get_price_history = (\<lambda>t s e. if t = ''NOPX'' then Inl ''no prices'' else Inr rising),
      get_fundamentals = (\<lambda>t. if t = ''NOFN'' then Inl ''no fundamentals''
                               else Inr (fund_of None None))\<rparr>"

definition fund_screen :: "real option \<Rightarrow> real option \<Rightarrow> real option \<Rightarrow> real option \<Rightarrow> fundamentals" where
  "fund_screen price cap vol dte =
     (\<lambda>k. if k = ''price'' then Some price
          else if k = ''market_cap'' then Some cap
          else if k = ''avg_daily_volume'' then Some vol
          else if k = ''debt_to_equity'' then Some dte else None)"

definition mock_provider :: DataProvider where
  "mock_provider =
     \<lparr>get_price_history = (\<lambda>t s e. Inl ''not used''),
      get_fundamentals = (\<lambda>t.
         if t = ''GOOD'' then Inr (fund_screen (Some 100) (Some 5000000000) (Some 10000000) (Some 1))
         else if t = ''NODTE'' then Inr (fund_screen (Some 100) (Some 5000000000) (Some 10000000) None)
         else if t = ''PENY'' then Inr (fund_screen (Some 2) None None (Some 5))
         else if t = ''NOCAP'' then Inr (fund_screen (Some 100) None (Some 1) (Some 5))
         else if t = ''LEVR'' then Inr (fund_screen (Some 100) (Some 5000000000) (Some 10000000) (Some 5))
         else Inl (''No mock data for '' @ t))\<rparr>"

text \<open>Formatters given as tables that cover the numbers of the examples.\<close>

definition fmt_table :: "nat \<Rightarrow> real \<Rightarrow> string" where
  "fmt_table d x =
     (if d = 2 \<and> x = 2 then ''2.00'' else if d = 1 \<and> x = 5 then ''5.0'' else ''?'')"

definition str_table :: "real \<Rightarrow> string" where
  "str_table x = (if x = 5 then ''5.0'' else if x = 3 then ''3.0'' else ''?'')"





section \<open>Momentum\<close>

lemma dropna_map_Some: "dropna (map (\<lambda>x. Some (f x)) xs) = map f xs"
  by (induction xs) (simp_all add: dropna_def)

lemma closes_frame_close: "dropna (map bar_close (closes_frame f n)) = map f [0..<n]"
  by (simp add: closes_frame_def comp_def dropna_map_Some)

text \<open>
  C4. With \<open>close\<close> the non-null closes, the long anchor is \<open>close.iloc[-252]\<close> and the
  short anchor \<open>close.iloc[-21]\<close>, both counted from the most recent bar. With at least 252
  closes and a positive long anchor the momentum is (short - long) / long; it is absent
  with fewer than 252 closes or a non-positive long anchor; on a strictly increasing path
  it is positive and on a strictly decreasing path negative.
\<close>

theorem momentum_formula:
  "(let close = dropna (map bar_close prices);
        long_anchor = close ! (length close - 252);
        short_anchor = close ! (length close - 21)
    in (252 \<le> length close \<and> 0 < long_anchor \<longrightarrow>
            compute_momentum prices = Some ((short_anchor - long_anchor) / long_anchor))
       \<and> (length close < 252 \<or> long_anchor \<le> 0 \<longrightarrow> compute_momentum prices = None)
       \<and> (252 \<le> length close \<and> 0 < long_anchor \<and> sorted_wrt (<) close \<longrightarrow>
            (\<exists>m. compute_momentum prices = Some m \<and> 0 < m))
       \<and> (252 \<le> length close \<and> 0 < long_anchor \<and> sorted_wrt (>) close \<longrightarrow>
            (\<exists>m. compute_momentum prices = Some m \<and> m < 0)))"
proof -
  define close where "close = dropna (map bar_close prices)"
  define long_anchor where "long_anchor = close ! (length close - 252)"
  define short_anchor where "short_anchor = close ! (length close - 21)"
  have inc: "long_anchor < short_anchor" if "252 \<le> length close" "sorted_wrt (<) close"
    unfolding long_anchor_def short_anchor_def
    using that sorted_wrt_nth_less[of "(<)" close "length close - 252" "length close - 21"]
    by auto
  have dec: "short_anchor < long_anchor" if "252 \<le> length close" "sorted_wrt (>) close"
    unfolding long_anchor_def short_anchor_def
    using that sorted_wrt_nth_less[of "(>)" close "length close - 252" "length close - 21"]
    by auto
  have "(252 \<le> length close \<and> 0 < long_anchor \<longrightarrow>
            compute_momentum prices = Some ((short_anchor - long_anchor) / long_anchor))
       \<and> (length close < 252 \<or> long_anchor \<le> 0 \<longrightarrow> compute_momentum prices = None)
       \<and> (252 \<le> length close \<and> 0 < long_anchor \<and> sorted_wrt (<) close \<longrightarrow>
            (\<exists>m. compute_momentum prices = Some m \<and> 0 < m))
       \<and> (252 \<le> length close \<and> 0 < long_anchor \<and> sorted_wrt (>) close \<longrightarrow>
            (\<exists>m. compute_momentum prices = Some m \<and> m < 0))"
    using inc dec
    by (auto simp: compute_momentum_def Let_def iloc_from_end_def MOMENTUM_LONG_WINDOW_DAYS_def
        MOMENTUM_SHORT_WINDOW_DAYS_def close_def[symmetric] long_anchor_def[symmetric]
        short_anchor_def[symmetric] divide_neg_pos)
  then show ?thesis
    unfolding Let_def close_def long_anchor_def short_anchor_def .
qed

theorem momentum_formula_witness:
  "252 \<le> length (dropna (map bar_close rising))
   \<and> 0 < dropna (map bar_close rising) ! 0
   \<and> sorted_wrt (<) (dropna (map bar_close rising))
   \<and> compute_momentum rising = Some 231
   \<and> sorted_wrt (>) (dropna (map bar_close falling))
   \<and> compute_momentum falling = Some (- (231 / 252))
   \<and> dropna (map bar_close from_zero) ! 0 \<le> 0
   \<and> compute_momentum from_zero = None
   \<and> length (dropna (map bar_close (closes_frame real 251))) < 252
   \<and> compute_momentum (closes_frame real 251) = None"
proof -
  have r: "dropna (map bar_close rising) = map (\<lambda>k. real k + 1) [0..<252]"
    unfolding rising_def by (rule closes_frame_close)
  have rs: "sorted_wrt (<) (dropna (map bar_close rising))"
    unfolding r by (simp add: sorted_wrt_map)
  have f: "dropna (map bar_close falling) = map (\<lambda>k. 252 - real k) [0..<252]"
    unfolding falling_def by (rule closes_frame_close)
  have fs: "sorted_wrt (>) (dropna (map bar_close falling))"
    unfolding f by (simp add: sorted_wrt_map)
  have z: "dropna (map bar_close from_zero) = map real [0..<252]"
    unfolding from_zero_def by (rule closes_frame_close)
  have s: "dropna (map bar_close (closes_frame real 251)) = map real [0..<251]"
    by (rule closes_frame_close)
  have "compute_momentum rising = Some 231"
    using momentum_formula[of rising] rs unfolding Let_def r by simp
  moreover have "compute_momentum falling = Some (- (231 / 252))"
    using momentum_formula[of falling] fs unfolding Let_def f by simp
  moreover have "compute_momentum from_zero = None"
    using momentum_formula[of from_zero] unfolding Let_def z by simp
  moreover have "compute_momentum (closes_frame real 251) = None"
    using momentum_formula[of "closes_frame real 251"] unfolding Let_def s by simp
  ultimately show ?thesis
    using rs fs by (simp add: r z s)
qed

section \<open>Quality\<close>

lemma dict_get_fund_of:
  "dict_get (fund_of roe dte) ''return_on_equity'' = roe"
  "dict_get (fund_of roe dte) ''debt_to_equity'' = dte"
  by (simp_all add: dict_get_def fund_of_def)

lemma roe_part_range:
  fixes r :: real
  shows "0 \<le> (max (- (1 / 2)) (min 1 r) + 1 / 2) / (3 / 2)"
    and "(max (- (1 / 2)) (min 1 r) + 1 / 2) / (3 / 2) \<le> 1"
  by (auto simp: max_def min_def)

lemma dte_part_range:
  fixes d :: real
  shows "0 \<le> 1 - max 0 (min 3 d) / 3" and "1 - max 0 (min 3 d) / 3 \<le> 1"
  by (auto simp: max_def min_def)

lemma mean2_range:
  fixes a b :: real
  shows "0 \<le> a \<Longrightarrow> a \<le> 1 \<Longrightarrow> 0 \<le> b \<Longrightarrow> b \<le> 1
         \<Longrightarrow> 0 \<le> (a + b) / 2 \<and> (a + b) / 2 \<le> 1"
  by simp

lemma compute_quality_none_iff:
  "compute_quality f = None \<longleftrightarrow>
     dict_get f ''return_on_equity'' = None \<and> dict_get f ''debt_to_equity'' = None"
  by (simp add: compute_quality_def Let_def)

lemma compute_quality_roe:
  "dict_get f ''return_on_equity'' = Some r \<Longrightarrow> dict_get f ''debt_to_equity'' = None
   \<Longrightarrow> compute_quality f = Some ((max (- (1 / 2)) (min 1 r) + 1 / 2) / (3 / 2))"
  by (simp add: compute_quality_def)

lemma compute_quality_dte:
  "dict_get f ''return_on_equity'' = None \<Longrightarrow> dict_get f ''debt_to_equity'' = Some d
   \<Longrightarrow> compute_quality f = Some (1 - max 0 (min 3 d) / 3)"
  by (simp add: compute_quality_def)

lemma compute_quality_both:
  "dict_get f ''return_on_equity'' = Some r \<Longrightarrow> dict_get f ''debt_to_equity'' = Some d
   \<Longrightarrow> compute_quality f =
       Some (((max (- (1 / 2)) (min 1 r) + 1 / 2) / (3 / 2) + (1 - max 0 (min 3 d) / 3)) / 2)"
  by (simp add: compute_quality_def)

lemma compute_quality_range:
  assumes "compute_quality f = Some q"
  shows "0 \<le> q \<and> q \<le> 1"
proof (cases "dict_get f ''return_on_equity''")
  case None
  note roe = this
  show ?thesis
  proof (cases "dict_get f ''debt_to_equity''")
    case None
    with roe have "compute_quality f = None" by (simp add: compute_quality_none_iff)
    with assms show ?thesis by simp
  next
    case (Some d)
    with roe assms have "q = 1 - max 0 (min 3 d) / 3" by (simp add: compute_quality_dte)
    then show ?thesis using dte_part_range[of d] by blast
  qed
next
  case (Some r)
  note roe = this
  show ?thesis
  proof (cases "dict_get f ''debt_to_equity''")
    case None
    with roe assms have "q = (max (- (1 / 2)) (min 1 r) + 1 / 2) / (3 / 2)"
      by (simp add: compute_quality_roe)
    then show ?thesis using roe_part_range[of r] by blast
  next
    case (Some d)
    with roe assms
    have q: "q = ((max (- (1 / 2)) (min 1 r) + 1 / 2) / (3 / 2) + (1 - max 0 (min 3 d) / 3)) / 2"
      by (simp add: compute_quality_both)
    show ?thesis
      unfolding q
      by (rule mean2_range[OF roe_part_range(1)[of r] roe_part_range(2)[of r]
            dte_part_range(1)[of d] dte_part_range(2)[of d]])
  qed
qed

text \<open>
  C5. The quality factor is absent exactly when return on equity and debt to equity are
  both absent. Otherwise it is the mean of the available components: the ROE component
  is ROE clipped to [-0.5, 1.0] and mapped linearly onto [0, 1], the D/E component is D/E
  clipped to [0, 3] and mapped linearly onto [0, 1] with the direction inverted. Each
  component, and so the score, lies in [0, 1] whatever the inputs.
\<close>

theorem quality_mean_of_available:
  "(let roe = dict_get f ''return_on_equity'';
        dte = dict_get f ''debt_to_equity'';
        roe_part = (\<lambda>r. (max (- (1 / 2)) (min 1 r) + 1 / 2) / (3 / 2));
        dte_part = (\<lambda>d. 1 - max 0 (min 3 d) / 3)
    in (compute_quality f = None \<longleftrightarrow> roe = None \<and> dte = None)
       \<and> (\<forall>r. roe = Some r \<and> dte = None \<longrightarrow> compute_quality f = Some (roe_part r))
       \<and> (\<forall>d. roe = None \<and> dte = Some d \<longrightarrow> compute_quality f = Some (dte_part d))
       \<and> (\<forall>r d. roe = Some r \<and> dte = Some d \<longrightarrow>
              compute_quality f = Some ((roe_part r + dte_part d) / 2))
       \<and> (\<forall>r. 0 \<le> roe_part r \<and> roe_part r \<le> 1)
       \<and> (\<forall>d. 0 \<le> dte_part d \<and> dte_part d \<le> 1)
       \<and> (\<forall>q. compute_quality f = Some q \<longrightarrow> 0 \<le> q \<and> q \<le> 1))"
  unfolding Let_def
  using compute_quality_none_iff[of f] compute_quality_roe[of f] compute_quality_dte[of f]
    compute_quality_both[of f] roe_part_range dte_part_range compute_quality_range[of f]
  by blast

theorem quality_mean_of_available_witness:
  "compute_quality (fund_of (Some (1 / 4)) None) = Some (1 / 2)
   \<and> compute_quality (fund_of None (Some 6)) = Some 0
   \<and> compute_quality (fund_of (Some 7) (Some (3 / 2))) = Some (3 / 4)
   \<and> compute_quality (fund_of None None) = None"
proof -
  have "compute_quality (fund_of (Some (1 / 4)) None)
          = Some ((max (- (1 / 2)) (min 1 (1 / 4)) + 1 / 2) / (3 / 2))"
    using quality_mean_of_available[of "fund_of (Some (1 / 4)) None"]
    unfolding Let_def dict_get_fund_of by blast
  moreover have "compute_quality (fund_of None (Some 6)) = Some (1 - max 0 (min 3 6) / 3)"
    using quality_mean_of_available[of "fund_of None (Some 6)"]
    unfolding Let_def dict_get_fund_of by blast
  moreover have "compute_quality (fund_of (Some 7) (Some (3 / 2)))
          = Some (((max (- (1 / 2)) (min 1 7) + 1 / 2) / (3 / 2)
                   + (1 - max 0 (min 3 (3 / 2)) / 3)) / 2)"
    using quality_mean_of_available[of "fund_of (Some 7) (Some (3 / 2))"]
    unfolding Let_def dict_get_fund_of by blast
  moreover have "compute_quality (fund_of None None) = None"
    using quality_mean_of_available[of "fund_of None None"]
    unfolding Let_def dict_get_fund_of by blast
  ultimately show ?thesis by simp
qed

section \<open>Ranking: normalisation and the shape of the output\<close>

lemma zscore_col_undefined:
  "series_std col = None \<or> series_std col = Some 0 \<Longrightarrow>
     zscore_col col = Inr (replicate (length col) 0)"
  by (auto simp: zscore_col_def Let_def)

lemma zscore_col_defined:
  "series_std col = Some sd \<Longrightarrow> sd \<noteq> 0 \<Longrightarrow>
     zscore_col col = Inr (fillna 0 (map (\<lambda>v. case v of None \<Rightarrow> None | Some x \<Rightarrow> Some (x / sd))
                                      (series_sub col (series_mean col))))"
  by (simp add: zscore_col_def Let_def series_div_def)

lemma zscore_col_total: "\<exists>zs. zscore_col col = Inr zs \<and> length zs = length col"
proof (cases "series_std col")
  case None
  then show ?thesis by (simp add: zscore_col_undefined)
next
  case (Some sd)
  then show ?thesis
    by (cases "sd = 0") (simp_all add: zscore_col_undefined zscore_col_defined fillna_def series_sub_def)
qed

lemma zscore_col_missing:
  assumes "zscore_col col = Inr zs" "i < length col" "col ! i = None"
  shows "zs ! i = 0"
proof (cases "series_std col")
  case None
  with assms show ?thesis by (auto simp: zscore_col_undefined)
next
  case (Some sd)
  show ?thesis
  proof (cases "sd = 0")
    case True
    with Some assms show ?thesis by (auto simp: zscore_col_undefined)
  next
    case False
    with Some assms show ?thesis
      by (auto simp: zscore_col_defined fillna_def series_sub_def)
  qed
qed

lemma score_frame_total:
  "\<exists>mz qz vz. zscore_col (map momentum df) = Inr mz \<and> length mz = length df
      \<and> zscore_col (map quality df) = Inr qz \<and> length qz = length df
      \<and> zscore_col (map low_vol df) = Inr vz \<and> length vz = length df
      \<and> score_frame df = Inr (map (build_row df mz qz vz) [0..<length df])"
proof -
  obtain mz where mz: "zscore_col (map momentum df) = Inr mz" "length mz = length df"
    using zscore_col_total[of "map momentum df"] by auto
  obtain qz where qz: "zscore_col (map quality df) = Inr qz" "length qz = length df"
    using zscore_col_total[of "map quality df"] by auto
  obtain vz where vz: "zscore_col (map low_vol df) = Inr vz" "length vz = length df"
    using zscore_col_total[of "map low_vol df"] by auto
  have "score_frame df = Inr (map (build_row df mz qz vz) [0..<length df])"
    by (simp add: score_frame_def mz qz vz)
  with mz qz vz show ?thesis by blast
qed

lemma rank_stocks_total: "\<exists>out. rank_stocks argsort fs top_n = Inr out"
proof -
  obtain rows where "score_frame (dropna_all (map invert_low_vol fs)) = Inr rows"
    using score_frame_total by blast
  then show ?thesis by (simp add: rank_stocks_def Let_def)
qed

lemma valid_argsortD:
  assumes "valid_argsort a"
  shows "mset (a keys) = mset [0..<length keys]"
    and "sorted (rev (map (\<lambda>i. keys ! i) (a keys)))"
    and "length (a keys) = length keys"
    and "set (a keys) = {0..<length keys}"
proof -
  show m: "mset (a keys) = mset [0..<length keys]"
    and "sorted (rev (map (\<lambda>i. keys ! i) (a keys)))"
    using assms by (simp_all add: valid_argsort_def)
  show "length (a keys) = length keys"
    using mset_eq_length[OF m] by simp
  show "set (a keys) = {0..<length keys}"
    using mset_eq_setD[OF m] by simp
qed

lemma sort_values_props:
  assumes "valid_argsort a"
  shows "length (sort_values a rows) = length rows"
    and "mset (sort_values a rows) = mset rows"
    and "sorted (rev (map row_composite (sort_values a rows)))"
proof -
  let ?keys = "map row_composite rows"
  note v = valid_argsortD[OF assms, of ?keys]
  show "length (sort_values a rows) = length rows"
    using v(3) by (simp add: sort_values_def)
  have "mset (sort_values a rows) = image_mset (\<lambda>i. rows ! i) (mset (a ?keys))"
    by (simp add: sort_values_def)
  also have "\<dots> = image_mset (\<lambda>i. rows ! i) (mset [0..<length rows])"
    using v(1) by simp
  also have "\<dots> = mset (map (\<lambda>i. rows ! i) [0..<length rows])"
    by simp
  also have "\<dots> = mset rows"
    by (simp add: map_nth)
  finally show "mset (sort_values a rows) = mset rows" .
  have "map row_composite (sort_values a rows) = map (\<lambda>i. ?keys ! i) (a ?keys)"
    using v(4) by (auto simp: sort_values_def)
  then show "sorted (rev (map row_composite (sort_values a rows)))"
    using v(2) by simp
qed

lemma invert_low_vol_simps:
  "ticker (invert_low_vol s) = ticker s"
  "momentum (invert_low_vol s) = momentum s"
  "quality (invert_low_vol s) = quality s"
  "low_vol (invert_low_vol s) = (case low_vol s of None \<Rightarrow> None | Some v \<Rightarrow> Some (- v))"
  "all_missing (invert_low_vol s) = all_missing s"
  by (simp_all add: invert_low_vol_def all_missing_def split: option.splits)

lemma prepared_eq:
  "dropna_all (map invert_low_vol fs) = map invert_low_vol (filter (\<lambda>s. \<not> all_missing s) fs)"
  by (induction fs) (simp_all add: dropna_all_def invert_low_vol_simps)

lemma score_frame_rows:
  "\<exists>rows. score_frame df = Inr rows \<and> length rows = length df
     \<and> (\<forall>i<length df.
           row_ticker (rows ! i) = ticker (df ! i)
         \<and> (momentum (df ! i) = None \<longrightarrow> row_momentum_z (rows ! i) = 0)
         \<and> (quality (df ! i) = None \<longrightarrow> row_quality_z (rows ! i) = 0)
         \<and> (low_vol (df ! i) = None \<longrightarrow> row_low_vol_z (rows ! i) = 0)
         \<and> row_composite (rows ! i) =
              w_mom * row_momentum_z (rows ! i) + w_qua * row_quality_z (rows ! i)
              + w_vol * row_low_vol_z (rows ! i))"
proof -
  obtain mz qz vz where z:
    "zscore_col (map momentum df) = Inr mz" "length mz = length df"
    "zscore_col (map quality df) = Inr qz" "length qz = length df"
    "zscore_col (map low_vol df) = Inr vz" "length vz = length df"
    "score_frame df = Inr (map (build_row df mz qz vz) [0..<length df])"
    using score_frame_total[of df] by blast
  let ?rows = "map (build_row df mz qz vz) [0..<length df]"
  have "row_ticker (?rows ! i) = ticker (df ! i)
         \<and> (momentum (df ! i) = None \<longrightarrow> row_momentum_z (?rows ! i) = 0)
         \<and> (quality (df ! i) = None \<longrightarrow> row_quality_z (?rows ! i) = 0)
         \<and> (low_vol (df ! i) = None \<longrightarrow> row_low_vol_z (?rows ! i) = 0)
         \<and> row_composite (?rows ! i) =
              w_mom * row_momentum_z (?rows ! i) + w_qua * row_quality_z (?rows ! i)
              + w_vol * row_low_vol_z (?rows ! i)" if "i < length df" for i
    using that zscore_col_missing[OF z(1), of i] zscore_col_missing[OF z(3), of i]
      zscore_col_missing[OF z(5), of i]
    by (simp add: build_row_def)
  with z(7) show ?thesis by (intro exI[of _ ?rows]) simp
qed

lemma rank_stocks_unfold:
  assumes "valid_argsort a" "score_frame (dropna_all (map invert_low_vol fs)) = Inr rows"
  shows "rank_stocks a fs top_n =
           Inr (map to_ranked
                  (head (case top_n of None \<Rightarrow> TOP_N_PER_SECTOR
                         | Some k \<Rightarrow> if k = 0 then TOP_N_PER_SECTOR else k)
                        (enumerate 0 (sort_values a rows))))"
proof (cases "dropna_all (map invert_low_vol fs) = []")
  case True
  with assms(2) have "rows = []"
    using score_frame_total[of "[]"] by auto
  moreover have "sort_values a [] = []"
    using sort_values_props(1)[OF assms(1), of "[]"] by simp
  ultimately show ?thesis
    using True by (simp add: rank_stocks_def Let_def head_def)
next
  case False
  then have "fs \<noteq> []" by (auto simp: dropna_all_def)
  with False assms(2) show ?thesis
    by (simp add: rank_stocks_def Let_def)
qed

lemma set_head_subset: "set (head n xs) \<subseteq> set xs"
  by (auto simp: head_def dest: in_set_takeD)

lemma head_enumerate_nth:
  assumes "k < length (head n (enumerate 0 xs))"
  shows "head n (enumerate 0 xs) ! k = (k, xs ! k)" and "k < length xs"
  using assms by (auto simp: head_def nth_enumerate_eq split: if_splits)

lemma round4_zero: "round4 0 = 0"
  by (simp add: round4_def round_half_even_def)

lemma set_enumerate_snd: "p \<in> set (enumerate 0 xs) \<Longrightarrow> snd p \<in> set xs"
  using nth_mem[of "fst p" xs] by (auto simp: in_set_enumerate_eq)

lemma rank_stocks_entries:
  assumes "valid_argsort a" "score_frame (dropna_all (map invert_low_vol fs)) = Inr rows"
    and "rank_stocks a fs top_n = Inr out" "r \<in> set out"
  shows "\<exists>k i. i < length rows \<and> r = to_ranked (k, rows ! i)"
proof -
  let ?n = "case top_n of None \<Rightarrow> TOP_N_PER_SECTOR | Some k \<Rightarrow> if k = 0 then TOP_N_PER_SECTOR else k"
  have "Inr out = (Inr (map to_ranked (head ?n (enumerate 0 (sort_values a rows))))
                   :: arith_fault + RankedStock list)"
    using assms(3)[symmetric] rank_stocks_unfold[OF assms(1,2), of top_n] by (rule trans)
  then have "out = map to_ranked (head ?n (enumerate 0 (sort_values a rows)))"
    by (simp only: sum.inject)
  with assms(4) have "r \<in> to_ranked ` set (head ?n (enumerate 0 (sort_values a rows)))"
    by simp
  then obtain p where p: "p \<in> set (head ?n (enumerate 0 (sort_values a rows)))"
    "r = to_ranked p"
    by blast
  have "p \<in> set (enumerate 0 (sort_values a rows))"
    by (rule subsetD[OF set_head_subset p(1)])
  then have "snd p \<in> set (sort_values a rows)"
    by (rule set_enumerate_snd)
  moreover have "set (sort_values a rows) = set rows"
    using sort_values_props(2)[OF assms(1), of rows] by (rule mset_eq_setD)
  ultimately have "snd p \<in> set rows"
    by simp
  then have "\<exists>i<length rows. rows ! i = snd p"
    by (simp only: in_set_conv_nth)
  then obtain i where i: "i < length rows" "snd p = rows ! i"
    by (elim exE conjE) (rule that, assumption, rule sym)
  have "r = to_ranked (fst p, snd p)"
    using p(2) by simp
  then have "r = to_ranked (fst p, rows ! i)"
    by (simp only: i(2))
  with i(1) show ?thesis
    by blast
qed

lemma rank_stocks_positions:
  assumes "valid_argsort a" "score_frame (dropna_all (map invert_low_vol fs)) = Inr rows"
    and "rank_stocks a fs top_n = Inr out" "k < length out"
  shows "out ! k = to_ranked (k, sort_values a rows ! k)" and "k < length rows"
proof -
  let ?n = "case top_n of None \<Rightarrow> TOP_N_PER_SECTOR | Some k \<Rightarrow> if k = 0 then TOP_N_PER_SECTOR else k"
  let ?h = "head ?n (enumerate 0 (sort_values a rows))"
  have out: "out = map to_ranked ?h"
    using rank_stocks_unfold[OF assms(1,2), of top_n] assms(3) by simp
  with assms(4) have k: "k < length ?h" by simp
  from head_enumerate_nth[OF k] out k
  show "out ! k = to_ranked (k, sort_values a rows ! k)" by simp
  from head_enumerate_nth(2)[OF k] show "k < length rows"
    by (simp add: sort_values_props(1)[OF assms(1)])
qed

lemma rank_stocks_length:
  assumes "valid_argsort a" "score_frame (dropna_all (map invert_low_vol fs)) = Inr rows"
    and "rank_stocks a fs top_n = Inr out"
  shows "length out =
           (let n = (case top_n of None \<Rightarrow> TOP_N_PER_SECTOR | Some k \<Rightarrow> if k = 0 then TOP_N_PER_SECTOR else k)
            in if 0 \<le> n then min (nat n) (length rows) else length rows - nat (- n))"
  using rank_stocks_unfold[OF assms(1,2), of top_n] assms(3)
  by (auto simp: Let_def head_def sort_values_props(1)[OF assms(1)])

lemma sorted_rev_of_neg:
  fixes xs :: "real list"
  shows "sorted (map uminus xs) \<Longrightarrow> sorted (rev xs)"
  by (induction xs) (auto simp: sorted_append)

lemma stable_argsort_valid: "valid_argsort stable_argsort"
  unfolding valid_argsort_def
proof (intro allI conjI)
  fix keys :: "real list"
  show "mset (stable_argsort keys) = mset [0..<length keys]"
    by (simp add: stable_argsort_def)
  have "sorted (map (\<lambda>i. - (keys ! i)) (stable_argsort keys))"
    unfolding stable_argsort_def by (rule sorted_sort_key)
  then have "sorted (map uminus (map (\<lambda>i. keys ! i) (stable_argsort keys)))"
    by (simp add: comp_def)
  then show "sorted (rev (map (\<lambda>i. keys ! i) (stable_argsort keys)))"
    by (rule sorted_rev_of_neg)
qed

lemma tie_reversing_argsort_valid: "valid_argsort tie_reversing_argsort"
  unfolding valid_argsort_def
proof (intro allI conjI)
  fix keys :: "real list"
  show "mset (tie_reversing_argsort keys) = mset [0..<length keys]"
    by (simp add: tie_reversing_argsort_def)
  show "sorted (rev (map (\<lambda>i. keys ! i) (tie_reversing_argsort keys)))"
    by (simp add: tie_reversing_argsort_def rev_map)
qed

lemma rank_stocks_only:
  "rank_stocks stable_argsort only (Some 3) =
     Inr [\<lparr>rs_ticker = ''ONLY'', composite_score = 0, momentum_z = 0, quality_z = 0,
           low_vol_z = 0, rank = 1\<rparr>]"
  by (simp add: rank_stocks_def only_def make_score_def dropna_all_def all_missing_def
      invert_low_vol_def score_frame_def zscore_col_def series_std_def sample_std_def dropna_def
      build_row_def sort_values_def stable_argsort_def head_def to_ranked_def round4_zero
      enumerate_eq_zip)

section \<open>Ranking: the zero-deviation guard in double precision\<close>

lemma floor_log2_neg:
  fixes k :: nat
  assumes "1 / 2 ^ k \<le> a" "a < 2 / 2 ^ k"
  shows "\<lfloor>log 2 a\<rfloor> = - int k"
proof -
  have "0 < 1 / (2::real) ^ k"
    by simp
  with assms(1) have pos: "0 < a"
    by linarith
  have p: "2 powr (- real k) = 1 / 2 ^ k"
    by (simp add: powr_minus powr_realpow inverse_eq_divide)
  have q: "2 powr (1 - real k) = 2 / 2 ^ k"
    by (simp add: powr_diff powr_realpow)
  have "- real k \<le> log 2 a"
    using assms(1) pos by (simp add: le_log_iff p)
  moreover have "log 2 a < 1 - real k"
    using assms(2) pos by (simp add: log_less_iff q)
  ultimately show ?thesis
    by (intro floor_unique) simp_all
qed

lemma fl_neg_exp:
  fixes k :: nat
  assumes "1 / 2 ^ k \<le> \<bar>x\<bar>" "\<bar>x\<bar> < 2 / 2 ^ k"
  shows "fl x = of_int (round_half_even (x * 2 ^ (k + 52))) / 2 ^ (k + 52)"
proof -
  have "0 < 1 / (2::real) ^ k"
    by simp
  with assms(1) have "0 < \<bar>x\<bar>"
    by linarith
  then have nz: "x \<noteq> 0"
    by simp
  have e: "\<lfloor>log 2 \<bar>x\<bar>\<rfloor> = - int k"
    using assms by (rule floor_log2_neg)
  have u: "(2::real) powr (of_int (- int k) - 52) = 1 / 2 ^ (k + 52)"
  proof -
    have "real_of_int (- int k) - 52 = - real (k + 52)" by simp
    then have "(2::real) powr (of_int (- int k) - 52) = 2 powr (- real (k + 52))"
      by (simp only:)
    also have "\<dots> = 1 / 2 ^ (k + 52)"
      by (simp add: powr_minus powr_realpow inverse_eq_divide del: of_nat_add)
    finally show ?thesis .
  qed
  have "fl x = of_int (round_half_even (x / 2 powr (of_int (- int k) - 52)))
                 * 2 powr (of_int (- int k) - 52)"
    using nz by (simp only: fl_def Let_def e if_False)
  also have "\<dots> = of_int (round_half_even (x / (1 / 2 ^ (k + 52)))) * (1 / 2 ^ (k + 52))"
    by (simp only: u)
  also have "\<dots> = of_int (round_half_even (x * 2 ^ (k + 52))) / 2 ^ (k + 52)"
    by simp
  finally show ?thesis .
qed

lemma round_half_even_near:
  assumes "of_int m - 1 / 2 < y" "y < of_int m + 1 / 2"
  shows "round_half_even y = m"
proof -
  have "\<lfloor>y\<rfloor> = m \<or> \<lfloor>y\<rfloor> = m - 1"
    using assms by linarith
  then show ?thesis
  proof
    assume f: "\<lfloor>y\<rfloor> = m"
    then have "y - of_int m < 1 / 2" using assms by linarith
    with f show ?thesis by (simp add: round_half_even_def Let_def)
  next
    assume f: "\<lfloor>y\<rfloor> = m - 1"
    then have "1 / 2 < y - of_int (m - 1)" using assms by simp
    with f show ?thesis by (simp add: round_half_even_def Let_def)
  qed
qed

lemma fl_zero: "fl 0 = 0"
  by (simp add: fl_def)

lemma fl_tenth: "fl (1 / 10) = 3602879701896397 / 2 ^ 55"
proof -
  let ?x = "1 / 10 :: real"
  have "fl ?x = of_int (round_half_even (?x * 2 ^ (4 + 52))) / 2 ^ (4 + 52)"
    by (rule fl_neg_exp) simp_all
  also have "round_half_even (?x * 2 ^ (4 + 52)) = 7205759403792794"
    by (rule round_half_even_near) simp_all
  finally show ?thesis by simp
qed

lemma fl_sum1: "fl (0 + 3602879701896397 / 2 ^ 55) = 3602879701896397 / 2 ^ 55"
proof -
  let ?x = "0 + 3602879701896397 / 2 ^ 55 :: real"
  have "fl ?x = of_int (round_half_even (?x * 2 ^ (4 + 52))) / 2 ^ (4 + 52)"
    by (rule fl_neg_exp) simp_all
  also have "round_half_even (?x * 2 ^ (4 + 52)) = 7205759403792794"
    by (rule round_half_even_near) simp_all
  finally show ?thesis by simp
qed

lemma fl_sum2: "fl (3602879701896397 / 2 ^ 55 + 3602879701896397 / 2 ^ 55) = 3602879701896397 / 2 ^ 54"
proof -
  let ?x = "3602879701896397 / 2 ^ 55 + 3602879701896397 / 2 ^ 55 :: real"
  have "fl ?x = of_int (round_half_even (?x * 2 ^ (3 + 52))) / 2 ^ (3 + 52)"
    by (rule fl_neg_exp) simp_all
  also have "round_half_even (?x * 2 ^ (3 + 52)) = 7205759403792794"
    by (rule round_half_even_near) simp_all
  finally show ?thesis by simp
qed

lemma fl_sum3: "fl (3602879701896397 / 2 ^ 54 + 3602879701896397 / 2 ^ 55) = 5404319552844596 / 2 ^ 54"
proof -
  let ?x = "3602879701896397 / 2 ^ 54 + 3602879701896397 / 2 ^ 55 :: real"
  have "fl ?x = of_int (round_half_even (?x * 2 ^ (2 + 52))) / 2 ^ (2 + 52)"
    by (rule fl_neg_exp) simp_all
  also have "?x * 2 ^ (2 + 52) = 10808639105689191 / 2"
    by simp
  also have "round_half_even (10808639105689191 / 2) = 5404319552844596"
    by (simp add: round_half_even_def Let_def)
  finally show ?thesis by simp
qed

lemma fl_avg: "fl (5404319552844596 / 2 ^ 54 / 3) = 7205759403792795 / 2 ^ 56"
proof -
  let ?x = "5404319552844596 / 2 ^ 54 / 3 :: real"
  have "fl ?x = of_int (round_half_even (?x * 2 ^ (4 + 52))) / 2 ^ (4 + 52)"
    by (rule fl_neg_exp) simp_all
  also have "round_half_even (?x * 2 ^ (4 + 52)) = 7205759403792795"
    by (rule round_half_even_near) simp_all
  finally show ?thesis by simp
qed

lemma fl_dev: "fl (7205759403792795 / 2 ^ 56 - 3602879701896397 / 2 ^ 55) = 1 / 2 ^ 56"
proof -
  let ?x = "7205759403792795 / 2 ^ 56 - 3602879701896397 / 2 ^ 55 :: real"
  have "fl ?x = of_int (round_half_even (?x * 2 ^ (56 + 52))) / 2 ^ (56 + 52)"
    by (rule fl_neg_exp) simp_all
  also have "round_half_even (?x * 2 ^ (56 + 52)) = 4503599627370496"
    by (rule round_half_even_near) simp_all
  finally show ?thesis by simp
qed

lemma fl_sqr: "fl (1 / 2 ^ 56 * (1 / 2 ^ 56)) = 1 / 2 ^ 112"
proof -
  let ?x = "1 / 2 ^ 56 * (1 / 2 ^ 56) :: real"
  have "fl ?x = of_int (round_half_even (?x * 2 ^ (112 + 52))) / 2 ^ (112 + 52)"
    by (rule fl_neg_exp) simp_all
  also have "round_half_even (?x * 2 ^ (112 + 52)) = 4503599627370496"
    by (rule round_half_even_near) simp_all
  finally show ?thesis by simp
qed

lemma fl_sqsum1: "fl (0 + 1 / 2 ^ 112) = 1 / 2 ^ 112"
proof -
  let ?x = "0 + 1 / 2 ^ 112 :: real"
  have "fl ?x = of_int (round_half_even (?x * 2 ^ (112 + 52))) / 2 ^ (112 + 52)"
    by (rule fl_neg_exp) simp_all
  also have "round_half_even (?x * 2 ^ (112 + 52)) = 4503599627370496"
    by (rule round_half_even_near) simp_all
  finally show ?thesis by simp
qed

lemma fl_sqsum2: "fl (1 / 2 ^ 112 + 1 / 2 ^ 112) = 1 / 2 ^ 111"
proof -
  let ?x = "1 / 2 ^ 112 + 1 / 2 ^ 112 :: real"
  have "fl ?x = of_int (round_half_even (?x * 2 ^ (111 + 52))) / 2 ^ (111 + 52)"
    by (rule fl_neg_exp) simp_all
  also have "round_half_even (?x * 2 ^ (111 + 52)) = 4503599627370496"
    by (rule round_half_even_near) simp_all
  finally show ?thesis by simp
qed

lemma fl_sqsum3: "fl (1 / 2 ^ 111 + 1 / 2 ^ 112) = 3 / 2 ^ 112"
proof -
  let ?x = "1 / 2 ^ 111 + 1 / 2 ^ 112 :: real"
  have "fl ?x = of_int (round_half_even (?x * 2 ^ (111 + 52))) / 2 ^ (111 + 52)"
    by (rule fl_neg_exp) simp_all
  also have "round_half_even (?x * 2 ^ (111 + 52)) = 6755399441055744"
    by (rule round_half_even_near) simp_all
  finally show ?thesis by simp
qed

lemma fl_var: "fl (3 / 2 ^ 112 / (3 - 1)) = 3 / 2 ^ 113"
proof -
  let ?x = "3 / 2 ^ 112 / (3 - 1) :: real"
  have "fl ?x = of_int (round_half_even (?x * 2 ^ (112 + 52))) / 2 ^ (112 + 52)"
    by (rule fl_neg_exp) simp_all
  also have "round_half_even (?x * 2 ^ (112 + 52)) = 6755399441055744"
    by (rule round_half_even_near) simp_all
  finally show ?thesis by simp
qed

lemma fl_std: "fl (sqrt (3 / 2 ^ 113)) = 5515760546423086 / 2 ^ 108"
proof -
  let ?x = "sqrt (3 / 2 ^ 113) :: real"
  have lo: "(5515760546423086 - 1 / 2) / 2 ^ 108 < ?x"
    by (rule real_less_rsqrt) (simp add: power2_eq_square)
  have hi: "?x < (5515760546423086 + 1 / 2) / 2 ^ 108"
    by (rule real_less_lsqrt) (simp_all add: power2_eq_square)
  have nn: "\<bar>?x\<bar> = ?x"
    by simp
  have b1: "1 / 2 ^ 56 \<le> \<bar>?x\<bar>"
    using lo unfolding nn by simp
  have b2: "\<bar>?x\<bar> < 2 / 2 ^ 56"
    using hi unfolding nn by simp
  have "fl ?x = of_int (round_half_even (?x * 2 ^ (56 + 52))) / 2 ^ (56 + 52)"
    using b1 b2 by (rule fl_neg_exp)
  also have "round_half_even (?x * 2 ^ (56 + 52)) = 5515760546423086"
  proof (rule round_half_even_near)
    show "of_int 5515760546423086 - 1 / 2 < ?x * 2 ^ (56 + 52)"
      using lo by (simp add: field_simps)
    show "?x * 2 ^ (56 + 52) < of_int 5515760546423086 + 1 / 2"
      using hi by (simp add: field_simps)
  qed
  finally show ?thesis by simp
qed

lemma fl_sub: "fl (3602879701896397 / 2 ^ 55 - 7205759403792795 / 2 ^ 56) = - (1 / 2 ^ 56)"
proof -
  let ?x = "3602879701896397 / 2 ^ 55 - 7205759403792795 / 2 ^ 56 :: real"
  have "fl ?x = of_int (round_half_even (?x * 2 ^ (56 + 52))) / 2 ^ (56 + 52)"
    by (rule fl_neg_exp) simp_all
  also have "round_half_even (?x * 2 ^ (56 + 52)) = - 4503599627370496"
    by (rule round_half_even_near) simp_all
  finally show ?thesis by simp
qed

lemma fl_z: "fl (- (1 / 2 ^ 56) / (5515760546423086 / 2 ^ 108)) = - (7354347395230783 / 2 ^ 53)"
proof -
  let ?x = "- (1 / 2 ^ 56) / (5515760546423086 / 2 ^ 108) :: real"
  have "fl ?x = of_int (round_half_even (?x * 2 ^ (1 + 52))) / 2 ^ (1 + 52)"
    by (rule fl_neg_exp) simp_all
  also have "round_half_even (?x * 2 ^ (1 + 52)) = - 7354347395230783"
    by (rule round_half_even_near) simp_all
  finally show ?thesis by simp
qed

lemma fl_half: "fl (1 / 2) = 1 / 2"
proof -
  let ?x = "1 / 2 :: real"
  have "fl ?x = of_int (round_half_even (?x * 2 ^ (1 + 52))) / 2 ^ (1 + 52)"
    by (rule fl_neg_exp) simp_all
  also have "round_half_even (?x * 2 ^ (1 + 52)) = 4503599627370496"
    by (rule round_half_even_near) simp_all
  finally show ?thesis by simp
qed

lemma fl_one: "fl (1) = 1"
proof -
  let ?x = "1 :: real"
  have "fl ?x = of_int (round_half_even (?x * 2 ^ (0 + 52))) / 2 ^ (0 + 52)"
    by (rule fl_neg_exp) simp_all
  also have "round_half_even (?x * 2 ^ (0 + 52)) = 4503599627370496"
    by (rule round_half_even_near) simp_all
  finally show ?thesis by simp
qed

lemma fl_three_halves: "fl (3 / 2) = 3 / 2"
proof -
  let ?x = "3 / 2 :: real"
  have "fl ?x = of_int (round_half_even (?x * 2 ^ (0 + 52))) / 2 ^ (0 + 52)"
    by (rule fl_neg_exp) simp_all
  also have "round_half_even (?x * 2 ^ (0 + 52)) = 6755399441055744"
    by (rule round_half_even_near) simp_all
  finally show ?thesis by simp
qed

lemma tenth_universe_columns:
  "map momentum (dropna_all (map invert_low_vol tenth_universe))
     = [Some (3602879701896397 / 2 ^ 55), Some (3602879701896397 / 2 ^ 55),
        Some (3602879701896397 / 2 ^ 55)]"
  "map quality (dropna_all (map invert_low_vol tenth_universe))
     = [Some (1 / 2), Some (1 / 2), Some (1 / 2)]"
  by (simp_all add: tenth_universe_def make_score_def dropna_all_def all_missing_def
      invert_low_vol_def fl_tenth)

lemma fsum_tenths:
  "fsum [3602879701896397 / 2 ^ 55, 3602879701896397 / 2 ^ 55, 3602879701896397 / 2 ^ 55]
     = 5404319552844596 / 2 ^ 54"
  by (simp only: fsum_def foldl.simps fl_sum1 fl_sum2 fl_sum3)

lemma fsum_squares: "fsum [1 / 2 ^ 112, 1 / 2 ^ 112, 1 / 2 ^ 112] = 3 / 2 ^ 112"
  by (simp only: fsum_def foldl.simps fl_sqsum1 fl_sqsum2 fl_sqsum3)

lemma dropna_three: "dropna [Some a, Some b, Some c] = [a, b, c]"
  by (simp add: dropna_def)

lemma series_mean_fl_tenths:
  "series_mean_fl [Some (3602879701896397 / 2 ^ 55), Some (3602879701896397 / 2 ^ 55),
                   Some (3602879701896397 / 2 ^ 55)] = Some (7205759403792795 / 2 ^ 56)"
proof -
  let ?c = "3602879701896397 / 2 ^ 55 :: real"
  have ne: "[?c, ?c, ?c] \<noteq> []"
    by simp
  have len: "real (length [?c, ?c, ?c]) = 3"
    by simp
  show ?thesis
    by (simp only: series_mean_fl_def Let_def dropna_three ne if_False fsum_tenths len fl_avg)
qed

lemma series_std_fl_tenths:
  "series_std_fl [Some (3602879701896397 / 2 ^ 55), Some (3602879701896397 / 2 ^ 55),
                  Some (3602879701896397 / 2 ^ 55)] = Some (5515760546423086 / 2 ^ 108)"
proof -
  let ?c = "3602879701896397 / 2 ^ 55 :: real"
  have l2: "\<not> length [?c, ?c, ?c] < 2"
    by simp
  have len: "real (length [?c, ?c, ?c]) = 3"
    by simp
  show ?thesis
    by (simp only: series_std_fl_def Let_def dropna_three l2 if_False fsum_tenths len fl_avg
        list.map fl_dev fl_sqr fsum_squares fl_var fl_std)
qed

lemma zscore_col_fl_tenths:
  "zscore_col_fl [Some (3602879701896397 / 2 ^ 55), Some (3602879701896397 / 2 ^ 55),
                  Some (3602879701896397 / 2 ^ 55)]
     = Inr [- (7354347395230783 / 2 ^ 53), - (7354347395230783 / 2 ^ 53),
            - (7354347395230783 / 2 ^ 53)]"
proof -
  let ?c = "3602879701896397 / 2 ^ 55 :: real"
  let ?z = "- (7354347395230783 / 2 ^ 53) :: real"
  have nz: "(5515760546423086 / 2 ^ 108 :: real) \<noteq> 0"
    by simp
  have sub: "series_sub_fl [Some ?c, Some ?c, Some ?c] (Some (7205759403792795 / 2 ^ 56))
               = [Some (- (1 / 2 ^ 56)), Some (- (1 / 2 ^ 56)), Some (- (1 / 2 ^ 56))]"
    by (simp only: series_sub_fl_def list.map option.case fl_sub)
  have dv: "series_div_fl [Some (- (1 / 2 ^ 56)), Some (- (1 / 2 ^ 56)), Some (- (1 / 2 ^ 56))]
                (5515760546423086 / 2 ^ 108) = Inr [Some ?z, Some ?z, Some ?z]"
    by (simp only: series_div_fl_def nz if_False list.map option.case fl_z)
  have fn: "fillna 0 [Some ?z, Some ?z, Some ?z] = [?z, ?z, ?z]"
    by (simp add: fillna_def)
  show ?thesis
    by (simp only: zscore_col_fl_def Let_def series_mean_fl_tenths series_std_fl_tenths
        option.case nz if_False sub dv sum.case fn)
qed

lemma zscore_col_fl_halves: "zscore_col_fl [Some (1 / 2), Some (1 / 2), Some (1 / 2)] = Inr [0, 0, 0]"
proof -
  have "series_std_fl [Some (1 / 2), Some (1 / 2), Some (1 / 2)] = Some 0"
    by (simp add: series_std_fl_def dropna_def fsum_def Let_def fl_zero fl_half fl_one
        fl_three_halves)
  then show ?thesis
    by (simp add: zscore_col_fl_def Let_def numeral_3_eq_3)
qed

lemma round4_z: "round4 (- (7354347395230783 / 2 ^ 53)) = - (8165 / 10000)"
proof -
  have "round_half_even (- (7354347395230783 / 2 ^ 53) * 10000) = - 8165"
    by (rule round_half_even_near) simp_all
  then show ?thesis
    by (simp only: round4_def)
qed

lemma fl_two_fifths: "fl (2 / 5) = 3602879701896397 / 2 ^ 53"
proof -
  let ?x = "2 / 5 :: real"
  have "fl ?x = of_int (round_half_even (?x * 2 ^ (2 + 52))) / 2 ^ (2 + 52)"
    by (rule fl_neg_exp) simp_all
  also have "round_half_even (?x * 2 ^ (2 + 52)) = 7205759403792794"
    by (rule round_half_even_near) simp_all
  finally show ?thesis by simp
qed

lemma fl_weighted: "fl (3602879701896397 / 2 ^ 53 * - (7354347395230783 / 2 ^ 53)) = - (5883477916184627 / 2 ^ 54)"
proof -
  let ?x = "3602879701896397 / 2 ^ 53 * - (7354347395230783 / 2 ^ 53) :: real"
  have "fl ?x = of_int (round_half_even (?x * 2 ^ (2 + 52))) / 2 ^ (2 + 52)"
    by (rule fl_neg_exp) simp_all
  also have "round_half_even (?x * 2 ^ (2 + 52)) = - 5883477916184627"
    by (rule round_half_even_near) simp_all
  finally show ?thesis by simp
qed

lemma fl_weighted_sum: "fl (- (5883477916184627 / 2 ^ 54) + 0) = - (5883477916184627 / 2 ^ 54)"
proof -
  let ?x = "- (5883477916184627 / 2 ^ 54) + 0 :: real"
  have "fl ?x = of_int (round_half_even (?x * 2 ^ (2 + 52))) / 2 ^ (2 + 52)"
    by (rule fl_neg_exp) simp_all
  also have "round_half_even (?x * 2 ^ (2 + 52)) = - 5883477916184627"
    by (rule round_half_even_near) simp_all
  finally show ?thesis by simp
qed

lemma composite_fl_tenths:
  "composite_fl (- (7354347395230783 / 2 ^ 53)) 0 0 = - (5883477916184627 / 2 ^ 54)"
proof -
  have w: "fl w_mom = 3602879701896397 / 2 ^ 53"
    by (simp add: w_mom_def fl_two_fifths)
  have q: "fl (fl w_qua * 0) = 0" "fl (fl w_vol * 0) = 0"
    by (simp_all add: fl_zero)
  show ?thesis
    by (simp only: composite_fl_def w q fl_weighted fl_weighted_sum)
qed

lemma round4_composite: "round4 (- (5883477916184627 / 2 ^ 54)) = - (3266 / 10000)"
proof -
  have "round_half_even (- (5883477916184627 / 2 ^ 54) * 10000) = - 3266"
    by (rule round_half_even_near) simp_all
  then show ?thesis
    by (simp only: round4_def)
qed

text \<open>
  C3. The guard of Step 3 does not fire for every column of identical values. Take three
  tickers whose momentum is the Python float \<open>0.1\<close>, whose quality is \<open>0.5\<close> and whose
  volatility is \<open>0.25\<close>. In double arithmetic the sum of the three momenta rounds up, the
  mean of the momentum column is \<open>7205759403792795 / 2^56\<close> (one unit in the last place above
  \<open>0.1\<close>), and its standard deviation is \<open>5515760546423086 / 2^108\<close>, about \<open>1.7e-17\<close>, not
  zero. The test \<open>std == 0\<close> fails, the column is divided by that deviation, and every
  ticker gets the momentum z-score \<open>- 7354347395230783 / 2^53\<close>, reported as \<open>-0.8165\<close>,
  instead of the neutral 0, and the composite score \<open>-0.3266\<close> instead of 0. The quality
  column of the same universe has deviation exactly zero and gets the z-score 0, as does
  the momentum column in exact arithmetic.
\<close>

theorem identical_values_miss_zero_guard:
  "map momentum (dropna_all (map invert_low_vol tenth_universe))
     = [Some (fl (1 / 10)), Some (fl (1 / 10)), Some (fl (1 / 10))]
   \<and> fl (1 / 10) = 3602879701896397 / 2 ^ 55
   \<and> series_mean_fl (map momentum (dropna_all (map invert_low_vol tenth_universe)))
       = Some (7205759403792795 / 2 ^ 56)
   \<and> series_std_fl (map momentum (dropna_all (map invert_low_vol tenth_universe)))
       = Some (5515760546423086 / 2 ^ 108)
   \<and> zscore_col_fl (map momentum (dropna_all (map invert_low_vol tenth_universe)))
       = Inr [- (7354347395230783 / 2 ^ 53), - (7354347395230783 / 2 ^ 53),
              - (7354347395230783 / 2 ^ 53)]
   \<and> round4 (- (7354347395230783 / 2 ^ 53)) = - (8165 / 10000)
   \<and> composite_fl (- (7354347395230783 / 2 ^ 53)) 0 0 = - (5883477916184627 / 2 ^ 54)
   \<and> round4 (- (5883477916184627 / 2 ^ 54)) = - (3266 / 10000)
   \<and> zscore_col_fl (map quality (dropna_all (map invert_low_vol tenth_universe)))
       = Inr [0, 0, 0]
   \<and> zscore_col [Some (1 / 10), Some (1 / 10), Some (1 / 10)] = Inr [0, 0, 0]"
proof -
  have m: "map momentum (dropna_all (map invert_low_vol tenth_universe))
             = [Some (fl (1 / 10)), Some (fl (1 / 10)), Some (fl (1 / 10))]"
    by (simp only: tenth_universe_columns fl_tenth)
  have e: "zscore_col [Some (1 / 10), Some (1 / 10), Some (1 / 10)] = Inr [0, 0, 0]"
    by (simp add: zscore_col_def series_std_def sample_std_def dropna_def Let_def numeral_3_eq_3)
  show ?thesis
    unfolding tenth_universe_columns
    by (intro conjI m[unfolded tenth_universe_columns] fl_tenth series_mean_fl_tenths
        series_std_fl_tenths zscore_col_fl_tenths round4_z composite_fl_tenths
        round4_composite zscore_col_fl_halves e)
qed

section \<open>Ranking: edge cases and the default for \<open>top_n\<close>\<close>

lemma all_missing_dropped:
  "(\<forall>s\<in>set fs. all_missing s) \<Longrightarrow> dropna_all (map invert_low_vol fs) = []"
  by (simp add: prepared_eq filter_empty_conv)

lemma score_frame_tickers:
  assumes "score_frame df = Inr rows"
  shows "map row_ticker rows = map ticker df"
proof -
  obtain rows' where r: "score_frame df = Inr rows'" "length rows' = length df"
    "\<forall>i<length df. row_ticker (rows' ! i) = ticker (df ! i)"
    using score_frame_rows[of df] by blast
  from r(1) assms have "rows' = rows" by simp
  with r(2,3) show ?thesis
    by (simp add: list_eq_iff_nth_eq)
qed

lemma to_ranked_simps:
  "rs_ticker (to_ranked p) = row_ticker (snd p)"
  "rank (to_ranked p) = int (fst p) + 1"
  "composite_score (to_ranked p) = round4 (row_composite (snd p))"
  "momentum_z (to_ranked p) = round4 (row_momentum_z (snd p))"
  "quality_z (to_ranked p) = round4 (row_quality_z (snd p))"
  "low_vol_z (to_ranked p) = round4 (row_low_vol_z (snd p))"
  by (simp_all add: to_ranked_def split: prod.splits)

lemma rank_stocks_all_survivors:
  assumes v: "valid_argsort a" and k: "int (length (dropna_all (map invert_low_vol fs))) < k"
  shows "\<exists>out. rank_stocks a fs (Some k) = Inr out
           \<and> length out = length (dropna_all (map invert_low_vol fs))
           \<and> mset (map rs_ticker out) = mset (map ticker (filter (\<lambda>s. \<not> all_missing s) fs))"
proof -
  let ?df = "dropna_all (map invert_low_vol fs)"
  obtain rows where rows: "score_frame ?df = Inr rows" "length rows = length ?df"
    using score_frame_rows[of ?df] by blast
  let ?srt = "sort_values a rows"
  have len: "length ?srt = length rows"
    by (rule sort_values_props(1)[OF v])
  have k0: "k \<noteq> 0" "0 \<le> k" "length ?srt \<le> nat k"
    using k rows(2) len by auto
  have h: "head k (enumerate 0 ?srt) = enumerate 0 ?srt"
    using k0 by (simp add: head_def)
  have out: "rank_stocks a fs (Some k) = Inr (map to_ranked (enumerate 0 ?srt))"
    using rank_stocks_unfold[OF v rows(1), of "Some k"] k0(1) h by simp
  have "map rs_ticker (map to_ranked ps) = map row_ticker (map snd ps)" for ps
    by (induction ps) (simp_all add: to_ranked_simps)
  then have "map rs_ticker (map to_ranked (enumerate 0 ?srt)) = map row_ticker (map snd (enumerate 0 ?srt))" .
  also have "\<dots> = map row_ticker ?srt"
    by (simp only: map_snd_enumerate)
  finally have "mset (map rs_ticker (map to_ranked (enumerate 0 ?srt))) = image_mset row_ticker (mset ?srt)"
    by simp
  also have "\<dots> = image_mset row_ticker (mset rows)"
    by (simp only: sort_values_props(2)[OF v])
  also have "\<dots> = mset (map row_ticker rows)"
    by simp
  also have "\<dots> = mset (map ticker ?df)"
    by (simp only: score_frame_tickers[OF rows(1)])
  also have "map ticker ?df = map ticker (filter (\<lambda>s. \<not> all_missing s) fs)"
    by (simp add: prepared_eq comp_def invert_low_vol_simps)
  finally have m: "mset (map rs_ticker (map to_ranked (enumerate 0 ?srt)))
                   = mset (map ticker (filter (\<lambda>s. \<not> all_missing s) fs))" .
  have l: "length (map to_ranked (enumerate 0 ?srt)) = length ?df"
    using len rows(2) by simp
  from out l m show ?thesis by blast
qed

lemma rank_stocks_single:
  assumes v: "valid_argsort a" and s: "\<not> all_missing s"
  shows "\<exists>r. rank_stocks a [s] (Some 3) = Inr [r] \<and> rank r = 1 \<and> rs_ticker r = ticker s"
proof -
  have df: "dropna_all (map invert_low_vol [s]) = [invert_low_vol s]"
    using s by (simp add: dropna_all_def invert_low_vol_simps)
  then have "int (length (dropna_all (map invert_low_vol [s]))) < 3"
    by simp
  from rank_stocks_all_survivors[OF v this] obtain out where out:
    "rank_stocks a [s] (Some 3) = Inr out" "length out = 1"
    "mset (map rs_ticker out) = mset (map ticker (filter (\<lambda>s. \<not> all_missing s) [s]))"
    using df by auto
  from out(2) obtain r where r: "out = [r]"
    by (cases out) auto
  obtain rows where rows: "score_frame (dropna_all (map invert_low_vol [s])) = Inr rows"
    using score_frame_rows by blast
  have "out ! 0 = to_ranked (0, sort_values a rows ! 0)"
    using rank_stocks_positions(1)[OF v rows out(1), of 0] out(2) by simp
  then have "rank r = 1"
    using r by (simp add: to_ranked_simps)
  moreover have "rs_ticker r = ticker s"
    using out(3) r s by simp
  ultimately show ?thesis
    using out(1) r by blast
qed

text \<open>
  C8. \<open>rank_stocks\<close> returns the empty list for an empty input and for a universe whose
  tickers all have every factor missing. When \<open>top_n\<close> exceeds the number of surviving
  tickers, all of them are returned and nothing else: the output has their number of
  entries and carries exactly their tickers. A single scoreable ticker with \<open>top_n = 3\<close>
  gives one entry, of rank 1.
\<close>

theorem edge_cases_empty_and_small:
  "rank_stocks a [] top_n = Inr []
   \<and> ((\<forall>s\<in>set fs. all_missing s) \<longrightarrow> rank_stocks a fs top_n = Inr [])
   \<and> (valid_argsort a \<and> int (length (dropna_all (map invert_low_vol fs))) < k \<longrightarrow>
        (\<exists>out. rank_stocks a fs (Some k) = Inr out
           \<and> length out = length (dropna_all (map invert_low_vol fs))
           \<and> mset (map rs_ticker out) = mset (map ticker (filter (\<lambda>s. \<not> all_missing s) fs))))
   \<and> (valid_argsort a \<and> \<not> all_missing s \<longrightarrow>
        (\<exists>r. rank_stocks a [s] (Some 3) = Inr [r] \<and> rank r = 1 \<and> rs_ticker r = ticker s))"
proof (intro conjI impI)
  show "rank_stocks a [] top_n = Inr []"
    by (simp add: rank_stocks_def)
  show "rank_stocks a fs top_n = Inr []" if "\<forall>s\<in>set fs. all_missing s"
    using all_missing_dropped[OF that] by (simp add: rank_stocks_def Let_def)
  show "\<exists>out. rank_stocks a fs (Some k) = Inr out
           \<and> length out = length (dropna_all (map invert_low_vol fs))
           \<and> mset (map rs_ticker out) = mset (map ticker (filter (\<lambda>s. \<not> all_missing s) fs))"
    if "valid_argsort a \<and> int (length (dropna_all (map invert_low_vol fs))) < k"
    using that rank_stocks_all_survivors[of a fs k] by simp
  show "\<exists>r. rank_stocks a [s] (Some 3) = Inr [r] \<and> rank r = 1 \<and> rs_ticker r = ticker s"
    if "valid_argsort a \<and> \<not> all_missing s"
    using that rank_stocks_single[of a s] by simp
qed

theorem edge_cases_empty_and_small_witness:
  "rank_stocks stable_argsort [] (Some 3) = Inr []
   \<and> all_missing (make_score ''BAD'' None None None)
   \<and> all_missing (make_score ''WORSE'' None None None)
   \<and> rank_stocks stable_argsort none_only (Some 3) = Inr []
   \<and> valid_argsort stable_argsort
   \<and> int (length (dropna_all (map invert_low_vol only))) < 3
   \<and> \<not> all_missing (make_score ''ONLY'' (Some (2 / 10)) (Some (5 / 10)) (Some (15 / 100)))
   \<and> rank_stocks stable_argsort only (Some 3) =
        Inr [\<lparr>rs_ticker = ''ONLY'', composite_score = 0, momentum_z = 0, quality_z = 0,
              low_vol_z = 0, rank = 1\<rparr>]"
proof -
  have m: "all_missing (make_score ''BAD'' None None None)"
    "all_missing (make_score ''WORSE'' None None None)"
    "\<not> all_missing (make_score ''ONLY'' (Some (2 / 10)) (Some (5 / 10)) (Some (15 / 100)))"
    by (simp_all add: all_missing_def make_score_def)
  have e: "rank_stocks stable_argsort [] (Some 3) = Inr []"
    using edge_cases_empty_and_small[of stable_argsort "Some 3" none_only 3 "hd only"] by simp
  have n: "rank_stocks stable_argsort none_only (Some 3) = Inr []"
    using edge_cases_empty_and_small[of stable_argsort "Some 3" none_only 3 "hd only"] m
    by (simp add: none_only_def)
  have l: "int (length (dropna_all (map invert_low_vol only))) < 3"
    by (simp add: only_def dropna_all_def)
  show ?thesis
    using e n m l stable_argsort_valid rank_stocks_only by simp
qed

text \<open>
  C10. A falsy \<open>top_n\<close> (0 or \<open>None\<close>) is replaced by \<open>TOP_N_PER_SECTOR = 3\<close>: the
  call returns what \<open>top_n = 3\<close> returns, and for a universe with a scoreable ticker that
  is a non-empty list of at most three entries.
\<close>

theorem falsy_top_n_uses_default:
  "rank_stocks a fs (Some 0) = rank_stocks a fs (Some TOP_N_PER_SECTOR)
   \<and> rank_stocks a fs None = rank_stocks a fs (Some TOP_N_PER_SECTOR)
   \<and> TOP_N_PER_SECTOR = 3
   \<and> (valid_argsort a \<and> dropna_all (map invert_low_vol fs) \<noteq> [] \<longrightarrow>
        (\<exists>out. rank_stocks a fs (Some 0) = Inr out \<and> out \<noteq> []
           \<and> length out = min 3 (length (dropna_all (map invert_low_vol fs)))))"
proof (intro conjI impI)
  show "rank_stocks a fs (Some 0) = rank_stocks a fs (Some TOP_N_PER_SECTOR)"
    by (simp add: rank_stocks_def TOP_N_PER_SECTOR_def)
  show "rank_stocks a fs None = rank_stocks a fs (Some TOP_N_PER_SECTOR)"
    by (simp add: rank_stocks_def TOP_N_PER_SECTOR_def)
  show "TOP_N_PER_SECTOR = 3"
    by (simp add: TOP_N_PER_SECTOR_def)
  show "\<exists>out. rank_stocks a fs (Some 0) = Inr out \<and> out \<noteq> []
           \<and> length out = min 3 (length (dropna_all (map invert_low_vol fs)))"
    if h: "valid_argsort a \<and> dropna_all (map invert_low_vol fs) \<noteq> []"
  proof -
    let ?df = "dropna_all (map invert_low_vol fs)"
    obtain rows where rows: "score_frame ?df = Inr rows" "length rows = length ?df"
      using score_frame_rows[of ?df] by blast
    obtain out where out: "rank_stocks a fs (Some 0) = Inr out"
      using rank_stocks_total by blast
    have "length out = min 3 (length ?df)"
      using rank_stocks_length[OF conjunct1[OF h] rows(1) out] rows(2)
      by (simp add: TOP_N_PER_SECTOR_def)
    moreover have "0 < length ?df"
      using h by simp
    ultimately have "0 < length out"
      by simp
    then have "out \<noteq> []"
      by simp
    moreover note \<open>length out = min 3 (length ?df)\<close>
    ultimately show ?thesis
      using out by blast
  qed
qed

theorem falsy_top_n_uses_default_witness:
  "valid_argsort stable_argsort
   \<and> dropna_all (map invert_low_vol only) \<noteq> []
   \<and> rank_stocks stable_argsort only (Some 0) =
        Inr [\<lparr>rs_ticker = ''ONLY'', composite_score = 0, momentum_z = 0, quality_z = 0,
              low_vol_z = 0, rank = 1\<rparr>]
   \<and> rank_stocks stable_argsort only None =
        Inr [\<lparr>rs_ticker = ''ONLY'', composite_score = 0, momentum_z = 0, quality_z = 0,
              low_vol_z = 0, rank = 1\<rparr>]"
proof -
  have d: "dropna_all (map invert_low_vol only) \<noteq> []"
    by (simp add: only_def dropna_all_def all_missing_def make_score_def invert_low_vol_def)
  show ?thesis
    using falsy_top_n_uses_default[of stable_argsort only] d stable_argsort_valid rank_stocks_only
    by simp
qed

section \<open>Ranking: missing factors\<close>

lemma composite_present_only:
  assumes "m = None \<longrightarrow> mz = 0" "q = None \<longrightarrow> qz = 0" "v = None \<longrightarrow> vz = 0"
  shows "w_mom * mz + w_qua * qz + w_vol * vz =
           (if m = None then 0 else w_mom * mz) + (if q = None then 0 else w_qua * qz)
           + (if v = None then 0 else w_vol * (vz::real))"
  using assms by simp

lemma mixed_df:
  "dropna_all (map invert_low_vol mixed) =
     [make_score ''A'' (Some 0) None (Some (- 1)),
      make_score ''B'' (Some 2) (Some 1) (Some (- 1)),
      make_score ''C'' (Some 4) (Some 1) None]"
  by (simp add: mixed_def make_score_def dropna_all_def all_missing_def invert_low_vol_def)

lemma mixed_z:
  "zscore_col [Some 0, Some 2, Some 4] = Inr [- 1, 0, 1]"
  "zscore_col [None, Some 1, Some 1] = Inr [0, 0, 0]"
  "zscore_col [Some (- 1), Some (- 1), None] = Inr [0, 0, 0]"
  by (simp_all add: zscore_col_def series_std_def series_mean_def sample_std_def dropna_def
      series_div_def series_sub_def fillna_def numeral_3_eq_3)

lemma mixed_frame:
  "score_frame (dropna_all (map invert_low_vol mixed)) =
     Inr [\<lparr>row_ticker = ''A'', row_momentum_z = - 1, row_quality_z = 0, row_low_vol_z = 0,
           row_composite = - (2 / 5)\<rparr>,
          \<lparr>row_ticker = ''B'', row_momentum_z = 0, row_quality_z = 0, row_low_vol_z = 0,
           row_composite = 0\<rparr>,
          \<lparr>row_ticker = ''C'', row_momentum_z = 1, row_quality_z = 0, row_low_vol_z = 0,
           row_composite = 2 / 5\<rparr>]"
  by (simp add: mixed_df score_frame_def make_score_def mixed_z build_row_def
      w_mom_def w_qua_def w_vol_def upt_rec[of 0] upt_rec[of 1] upt_rec[of 2] numeral_3_eq_3)

lemma round4_values: "round4 (2 / 5) = 2 / 5" "round4 (- (2 / 5)) = - (2 / 5)" "round4 1 = 1" "round4 (- 1) = - 1"
  by (simp_all add: round4_def round_half_even_def)

lemma mixed_ranked:
  "rank_stocks stable_argsort mixed (Some 3) =
     Inr [\<lparr>rs_ticker = ''C'', composite_score = 2 / 5, momentum_z = 1, quality_z = 0,
           low_vol_z = 0, rank = 1\<rparr>,
          \<lparr>rs_ticker = ''B'', composite_score = 0, momentum_z = 0, quality_z = 0,
           low_vol_z = 0, rank = 2\<rparr>,
          \<lparr>rs_ticker = ''A'', composite_score = - (2 / 5), momentum_z = - 1, quality_z = 0,
           low_vol_z = 0, rank = 3\<rparr>]"
proof -
  have ne: "mixed \<noteq> []" "dropna_all (map invert_low_vol mixed) \<noteq> []"
    by (simp_all add: mixed_df) (simp add: mixed_def)
  show ?thesis
    unfolding rank_stocks_def Let_def
    by (simp add: ne mixed_frame sort_values_def stable_argsort_def head_def to_ranked_def
        round4_zero round4_values enumerate_eq_zip upt_rec[of 0] upt_rec[of 1] upt_rec[of 2] numeral_3_eq_3)
qed

text \<open>
  C1. The frame that is normalised holds exactly the tickers with at least one factor
  present, in input order, with the volatility negated: a ticker whose three factors are
  all missing is dropped before normalisation and every other ticker is kept. In the
  scored frame a retained ticker has the z-score 0 for each factor it is missing, so its
  composite is the weighted sum of the z-scores of its present factors only. Every entry
  of the output is one of these rows, with the numbers rounded to four decimals.
\<close>

theorem missing_factor_neutral_fill:
  "(let df = dropna_all (map invert_low_vol fs)
    in df = map invert_low_vol (filter (\<lambda>s. \<not> all_missing s) fs)
     \<and> (\<exists>rows. score_frame df = Inr rows \<and> length rows = length df
          \<and> (\<forall>i<length df.
                 row_ticker (rows ! i) = ticker (df ! i)
               \<and> (momentum (df ! i) = None \<longrightarrow> row_momentum_z (rows ! i) = 0)
               \<and> (quality (df ! i) = None \<longrightarrow> row_quality_z (rows ! i) = 0)
               \<and> (low_vol (df ! i) = None \<longrightarrow> row_low_vol_z (rows ! i) = 0)
               \<and> row_composite (rows ! i) =
                    (if momentum (df ! i) = None then 0 else w_mom * row_momentum_z (rows ! i))
                    + (if quality (df ! i) = None then 0 else w_qua * row_quality_z (rows ! i))
                    + (if low_vol (df ! i) = None then 0 else w_vol * row_low_vol_z (rows ! i)))
          \<and> (valid_argsort a \<longrightarrow>
                (\<exists>out. rank_stocks a fs top_n = Inr out
                   \<and> (\<forall>r\<in>set out. \<exists>k i. i < length df \<and> r = to_ranked (k, rows ! i))))))"
proof -
  let ?df = "dropna_all (map invert_low_vol fs)"
  obtain rows where rows: "score_frame ?df = Inr rows" "length rows = length ?df"
    and cells: "\<forall>i<length ?df.
           row_ticker (rows ! i) = ticker (?df ! i)
         \<and> (momentum (?df ! i) = None \<longrightarrow> row_momentum_z (rows ! i) = 0)
         \<and> (quality (?df ! i) = None \<longrightarrow> row_quality_z (rows ! i) = 0)
         \<and> (low_vol (?df ! i) = None \<longrightarrow> row_low_vol_z (rows ! i) = 0)
         \<and> row_composite (rows ! i) =
              w_mom * row_momentum_z (rows ! i) + w_qua * row_quality_z (rows ! i)
              + w_vol * row_low_vol_z (rows ! i)"
    using score_frame_rows[of ?df] by blast
  have cells': "row_ticker (rows ! i) = ticker (?df ! i)
         \<and> (momentum (?df ! i) = None \<longrightarrow> row_momentum_z (rows ! i) = 0)
         \<and> (quality (?df ! i) = None \<longrightarrow> row_quality_z (rows ! i) = 0)
         \<and> (low_vol (?df ! i) = None \<longrightarrow> row_low_vol_z (rows ! i) = 0)
         \<and> row_composite (rows ! i) =
              (if momentum (?df ! i) = None then 0 else w_mom * row_momentum_z (rows ! i))
              + (if quality (?df ! i) = None then 0 else w_qua * row_quality_z (rows ! i))
              + (if low_vol (?df ! i) = None then 0 else w_vol * row_low_vol_z (rows ! i))"
    if "i < length ?df" for i
  proof -
    from cells that have c:
      "row_ticker (rows ! i) = ticker (?df ! i)"
      "momentum (?df ! i) = None \<longrightarrow> row_momentum_z (rows ! i) = 0"
      "quality (?df ! i) = None \<longrightarrow> row_quality_z (rows ! i) = 0"
      "low_vol (?df ! i) = None \<longrightarrow> row_low_vol_z (rows ! i) = 0"
      "row_composite (rows ! i) =
              w_mom * row_momentum_z (rows ! i) + w_qua * row_quality_z (rows ! i)
              + w_vol * row_low_vol_z (rows ! i)"
      by simp_all
    show ?thesis
      using c(1-4) unfolding c(5) composite_present_only[OF c(2) c(3) c(4)] by simp
  qed
  have outp: "\<exists>out. rank_stocks a fs top_n = Inr out
                   \<and> (\<forall>r\<in>set out. \<exists>k i. i < length ?df \<and> r = to_ranked (k, rows ! i))"
    if v: "valid_argsort a"
  proof -
    obtain out where out: "rank_stocks a fs top_n = Inr out"
      using rank_stocks_total by blast
    have "\<exists>k i. i < length ?df \<and> r = to_ranked (k, rows ! i)" if "r \<in> set out" for r
      using rank_stocks_entries[OF v rows(1) out that] rows(2) by simp
    with out show ?thesis by blast
  qed
  show ?thesis
    unfolding Let_def
  proof (intro conjI exI[of _ rows] allI impI)
    show "?df = map invert_low_vol (filter (\<lambda>s. \<not> all_missing s) fs)"
      by (rule prepared_eq)
    show "score_frame ?df = Inr rows" by (rule rows(1))
    show "length rows = length ?df" by (rule rows(2))
  qed (use cells' outp in simp_all)
qed

theorem missing_factor_neutral_fill_witness:
  "all_missing (make_score ''D'' None None None)
   \<and> dropna_all (map invert_low_vol mixed) =
        [make_score ''A'' (Some 0) None (Some (- 1)),
         make_score ''B'' (Some 2) (Some 1) (Some (- 1)),
         make_score ''C'' (Some 4) (Some 1) None]
   \<and> quality (dropna_all (map invert_low_vol mixed) ! 0) = None
   \<and> low_vol (dropna_all (map invert_low_vol mixed) ! 2) = None
   \<and> score_frame (dropna_all (map invert_low_vol mixed)) =
        Inr [\<lparr>row_ticker = ''A'', row_momentum_z = - 1, row_quality_z = 0, row_low_vol_z = 0,
              row_composite = w_mom * (- 1)\<rparr>,
             \<lparr>row_ticker = ''B'', row_momentum_z = 0, row_quality_z = 0, row_low_vol_z = 0,
              row_composite = 0\<rparr>,
             \<lparr>row_ticker = ''C'', row_momentum_z = 1, row_quality_z = 0, row_low_vol_z = 0,
              row_composite = w_mom * 1\<rparr>]
   \<and> valid_argsort stable_argsort
   \<and> rank_stocks stable_argsort mixed (Some 3) =
        Inr [\<lparr>rs_ticker = ''C'', composite_score = 2 / 5, momentum_z = 1, quality_z = 0,
              low_vol_z = 0, rank = 1\<rparr>,
             \<lparr>rs_ticker = ''B'', composite_score = 0, momentum_z = 0, quality_z = 0,
              low_vol_z = 0, rank = 2\<rparr>,
             \<lparr>rs_ticker = ''A'', composite_score = - (2 / 5), momentum_z = - 1, quality_z = 0,
              low_vol_z = 0, rank = 3\<rparr>]"
proof -
  have "dropna_all (map invert_low_vol mixed)
          = map invert_low_vol (filter (\<lambda>s. \<not> all_missing s) mixed)"
    using missing_factor_neutral_fill[of mixed stable_argsort "Some 3"]
    unfolding Let_def by (rule conjunct1)
  then have df: "dropna_all (map invert_low_vol mixed) =
        [make_score ''A'' (Some 0) None (Some (- 1)),
         make_score ''B'' (Some 2) (Some 1) (Some (- 1)),
         make_score ''C'' (Some 4) (Some 1) None]"
    by (simp add: mixed_def make_score_def all_missing_def invert_low_vol_def)
  have "all_missing (make_score ''D'' None None None)"
    by (simp add: all_missing_def make_score_def)
  moreover have "quality (dropna_all (map invert_low_vol mixed) ! 0) = None"
    "low_vol (dropna_all (map invert_low_vol mixed) ! 2) = None"
    by (simp_all add: df make_score_def)
  moreover have "score_frame (dropna_all (map invert_low_vol mixed)) =
        Inr [\<lparr>row_ticker = ''A'', row_momentum_z = - 1, row_quality_z = 0, row_low_vol_z = 0,
              row_composite = w_mom * (- 1)\<rparr>,
             \<lparr>row_ticker = ''B'', row_momentum_z = 0, row_quality_z = 0, row_low_vol_z = 0,
              row_composite = 0\<rparr>,
             \<lparr>row_ticker = ''C'', row_momentum_z = 1, row_quality_z = 0, row_low_vol_z = 0,
              row_composite = w_mom * 1\<rparr>]"
    by (simp add: mixed_frame w_mom_def)
  ultimately show ?thesis
    using df stable_argsort_valid mixed_ranked by simp
qed

section \<open>Ranking: order, ranks and ties\<close>

lemma round_half_even_bounds:
  "\<lfloor>y\<rfloor> \<le> round_half_even y" "round_half_even y \<le> \<lfloor>y\<rfloor> + 1"
  by (simp_all add: round_half_even_def Let_def)

lemma round_half_even_mono:
  assumes "x \<le> y"
  shows "round_half_even x \<le> round_half_even y"
proof (cases "\<lfloor>x\<rfloor> = \<lfloor>y\<rfloor>")
  case True
  have "x - of_int \<lfloor>x\<rfloor> \<le> y - of_int \<lfloor>y\<rfloor>"
    using assms True by simp
  then show ?thesis
    using True by (auto simp: round_half_even_def Let_def)
next
  case False
  have "\<lfloor>x\<rfloor> \<le> \<lfloor>y\<rfloor>"
    using assms by (rule floor_mono)
  with False have "\<lfloor>x\<rfloor> + 1 \<le> \<lfloor>y\<rfloor>"
    by simp
  then show ?thesis
    using round_half_even_bounds(2)[of x] round_half_even_bounds(1)[of y] by linarith
qed

lemma round4_mono: "x \<le> y \<Longrightarrow> round4 x \<le> round4 y"
  using round_half_even_mono[of "x * 10000" "y * 10000"]
  by (simp add: round4_def divide_right_mono)

lemma same_values_prepared:
  assumes "map (\<lambda>s. (momentum s, quality s, low_vol s)) fs'
             = map (\<lambda>s. (momentum s, quality s, low_vol s)) fs"
  shows "map momentum (dropna_all (map invert_low_vol fs')) = map momentum (dropna_all (map invert_low_vol fs))"
    and "map quality (dropna_all (map invert_low_vol fs')) = map quality (dropna_all (map invert_low_vol fs))"
    and "map low_vol (dropna_all (map invert_low_vol fs')) = map low_vol (dropna_all (map invert_low_vol fs))"
    and "length (dropna_all (map invert_low_vol fs')) = length (dropna_all (map invert_low_vol fs))"
  using assms
proof (induction fs arbitrary: fs')
  case Nil
  {
    case 1 then show ?case by simp
  next
    case 2 then show ?case by simp
  next
    case 3 then show ?case by simp
  next
    case 4 then show ?case by simp
  }
next
  case (Cons s fs)
  {
    case 1
    then obtain s' fs'' where f: "fs' = s' # fs''" by (cases fs') auto
    with 1 have "momentum s' = momentum s" "quality s' = quality s" "low_vol s' = low_vol s"
      "map (\<lambda>s. (momentum s, quality s, low_vol s)) fs'' = map (\<lambda>s. (momentum s, quality s, low_vol s)) fs"
      by simp_all
    with Cons.IH(1)[of fs''] f show ?case
      by (simp add: dropna_all_def all_missing_def invert_low_vol_def)
  next
    case 2
    then obtain s' fs'' where f: "fs' = s' # fs''" by (cases fs') auto
    with 2 have "momentum s' = momentum s" "quality s' = quality s" "low_vol s' = low_vol s"
      "map (\<lambda>s. (momentum s, quality s, low_vol s)) fs'' = map (\<lambda>s. (momentum s, quality s, low_vol s)) fs"
      by simp_all
    with Cons.IH(2)[of fs''] f show ?case
      by (simp add: dropna_all_def all_missing_def invert_low_vol_def)
  next
    case 3
    then obtain s' fs'' where f: "fs' = s' # fs''" by (cases fs') auto
    with 3 have "momentum s' = momentum s" "quality s' = quality s" "low_vol s' = low_vol s"
      "map (\<lambda>s. (momentum s, quality s, low_vol s)) fs'' = map (\<lambda>s. (momentum s, quality s, low_vol s)) fs"
      by simp_all
    with Cons.IH(3)[of fs''] f show ?case
      by (simp add: dropna_all_def all_missing_def invert_low_vol_def)
  next
    case 4
    then obtain s' fs'' where f: "fs' = s' # fs''" by (cases fs') auto
    with 4 have "momentum s' = momentum s" "quality s' = quality s" "low_vol s' = low_vol s"
      "map (\<lambda>s. (momentum s, quality s, low_vol s)) fs'' = map (\<lambda>s. (momentum s, quality s, low_vol s)) fs"
      by simp_all
    with Cons.IH(4)[of fs''] f show ?case
      by (simp add: dropna_all_def all_missing_def invert_low_vol_def)
  }
qed

lemma same_values_composite:
  assumes "map (\<lambda>s. (momentum s, quality s, low_vol s)) fs'
             = map (\<lambda>s. (momentum s, quality s, low_vol s)) fs"
    and rows: "score_frame (dropna_all (map invert_low_vol fs)) = Inr rows"
  shows "\<exists>rows'. score_frame (dropna_all (map invert_low_vol fs')) = Inr rows'
           \<and> map row_composite rows' = map row_composite rows"
proof -
  let ?df = "dropna_all (map invert_low_vol fs)"
  let ?df' = "dropna_all (map invert_low_vol fs')"
  note eq = same_values_prepared[OF assms(1)]
  obtain mz qz vz where z:
    "zscore_col (map momentum ?df) = Inr mz"
    "zscore_col (map quality ?df) = Inr qz"
    "zscore_col (map low_vol ?df) = Inr vz"
    "score_frame ?df = Inr (map (build_row ?df mz qz vz) [0..<length ?df])"
    using score_frame_total[of ?df] by blast
  have r: "rows = map (build_row ?df mz qz vz) [0..<length ?df]"
    using z(4) rows by simp
  have "score_frame ?df' = Inr (map (build_row ?df' mz qz vz) [0..<length ?df])"
    using z(1-3) by (simp add: score_frame_def eq)
  moreover have "map row_composite (map (build_row ?df' mz qz vz) [0..<length ?df])
                   = map row_composite rows"
    unfolding r by (simp add: build_row_def)
  ultimately show ?thesis by blast
qed

lemma sort_values_nth:
  assumes "valid_argsort a" "k < length rows"
  shows "sort_values a rows ! k = rows ! (a (map row_composite rows) ! k)"
    and "a (map row_composite rows) ! k < length rows"
proof -
  note v = valid_argsortD[OF assms(1), of "map row_composite rows"]
  have k: "k < length (a (map row_composite rows))"
    using v(3) assms(2) by simp
  then show "sort_values a rows ! k = rows ! (a (map row_composite rows) ! k)"
    by (simp add: sort_values_def)
  have "a (map row_composite rows) ! k \<in> set (a (map row_composite rows))"
    using k by (rule nth_mem)
  then show "a (map row_composite rows) ! k < length rows"
    using v(4) by simp
qed

lemma sorted_rev_map_mono:
  fixes f :: "real \<Rightarrow> real"
  assumes "\<And>x y. x \<le> y \<Longrightarrow> f x \<le> f y" "sorted (rev xs)"
  shows "sorted (rev (map f xs))"
  using assms(2) by (induction xs) (auto simp: sorted_append intro: assms(1))

lemma rank_stocks_scores_descending:
  assumes v: "valid_argsort a" and rows: "score_frame (dropna_all (map invert_low_vol fs)) = Inr rows"
    and out: "rank_stocks a fs top_n = Inr out"
  shows "sorted (rev (map composite_score out))"
proof -
  let ?n = "case top_n of None \<Rightarrow> TOP_N_PER_SECTOR | Some k \<Rightarrow> if k = 0 then TOP_N_PER_SECTOR else k"
  let ?srt = "sort_values a rows"
  have len: "length out \<le> length ?srt"
    using rank_stocks_length[OF v rows out] sort_values_props(1)[OF v, of rows]
    by (simp add: Let_def split: if_splits)
  have "out ! k = to_ranked (k, ?srt ! k)" if "k < length out" for k
    using rank_stocks_positions(1)[OF v rows out that] .
  then have "map composite_score out = map (\<lambda>r. round4 (row_composite r)) (take (length out) ?srt)"
    using len by (auto simp: list_eq_iff_nth_eq to_ranked_simps)
  also have "\<dots> = map round4 (take (length out) (map row_composite ?srt))"
    by (simp add: take_map)
  finally have e: "map composite_score out = map round4 (take (length out) (map row_composite ?srt))" .
  have "sorted (rev (take (length out) (map row_composite ?srt)))"
    using sort_values_props(3)[OF v, of rows]
    by (metis append_take_drop_id rev_append sorted_append)
  then have "sorted (rev (map round4 (take (length out) (map row_composite ?srt))))"
    by (rule sorted_rev_map_mono[where f = round4, rotated]) (rule round4_mono)
  then show ?thesis
    by (simp only: e)
qed

lemma same_values_same_order:
  assumes v: "valid_argsort a"
    and same: "map (\<lambda>s. (momentum s, quality s, low_vol s)) fs'
             = map (\<lambda>s. (momentum s, quality s, low_vol s)) fs"
    and rows: "score_frame (dropna_all (map invert_low_vol fs)) = Inr rows"
    and out: "rank_stocks a fs top_n = Inr out"
  shows "\<exists>rows' out'. score_frame (dropna_all (map invert_low_vol fs')) = Inr rows'
           \<and> rank_stocks a fs' top_n = Inr out' \<and> length out' = length out
           \<and> (\<forall>k<length out. \<exists>i<length rows.
                  out ! k = to_ranked (k, rows ! i) \<and> out' ! k = to_ranked (k, rows' ! i))"
proof -
  obtain rows' where rows': "score_frame (dropna_all (map invert_low_vol fs')) = Inr rows'"
    "map row_composite rows' = map row_composite rows"
    using same_values_composite[OF same rows] by blast
  obtain out' where out': "rank_stocks a fs' top_n = Inr out'"
    using rank_stocks_total by blast
  have len: "length rows' = length rows"
    using rows'(2) by (rule map_eq_imp_length_eq)
  have l: "length out' = length out"
    by (simp only: rank_stocks_length[OF v rows out] rank_stocks_length[OF v rows'(1) out'] len)
  have "\<exists>i<length rows. out ! k = to_ranked (k, rows ! i) \<and> out' ! k = to_ranked (k, rows' ! i)"
    if k: "k < length out" for k
  proof -
    let ?i = "a (map row_composite rows) ! k"
    have kr: "k < length rows"
      using rank_stocks_positions(2)[OF v rows out k] .
    have "out ! k = to_ranked (k, rows ! ?i)"
      using rank_stocks_positions(1)[OF v rows out k] sort_values_nth(1)[OF v kr] by simp
    moreover have "out' ! k = to_ranked (k, rows' ! ?i)"
      using rank_stocks_positions(1)[OF v rows'(1) out', of k] k l
        sort_values_nth(1)[OF v, of k rows'] kr len rows'(2) by simp
    moreover have "?i < length rows"
      using sort_values_nth(2)[OF v kr] .
    ultimately show ?thesis by blast
  qed
  with rows'(1) out' l show ?thesis by blast
qed

text \<open>
  C2, as the code has it. For every sorting routine that meets the contract of
  \<open>sort_values\<close>, the retained rows are sorted in descending order of the unrounded
  composite score, the output is a prefix of that order, the entry at position \<open>k\<close>
  (from 0) has rank \<open>k + 1\<close>, and the rounded scores of the output descend as well. The
  order is a function of the input values and their order: a second input with the same
  factor values in the same order yields, at every output position, the row of the same
  input position. Nothing fixes the order of rows with equal composite scores.
\<close>

theorem ranking_descending_dense:
  assumes "valid_argsort a"
  shows "\<exists>rows out.
      score_frame (dropna_all (map invert_low_vol fs)) = Inr rows
    \<and> rank_stocks a fs top_n = Inr out
    \<and> mset (sort_values a rows) = mset rows
    \<and> sorted (rev (map row_composite (sort_values a rows)))
    \<and> length out \<le> length rows
    \<and> (\<forall>k<length out. out ! k = to_ranked (k, sort_values a rows ! k) \<and> rank (out ! k) = int k + 1)
    \<and> sorted (rev (map composite_score out))
    \<and> (\<forall>fs'. map (\<lambda>s. (momentum s, quality s, low_vol s)) fs'
                = map (\<lambda>s. (momentum s, quality s, low_vol s)) fs \<longrightarrow>
          (\<exists>rows' out'. score_frame (dropna_all (map invert_low_vol fs')) = Inr rows'
             \<and> rank_stocks a fs' top_n = Inr out' \<and> length out' = length out
             \<and> (\<forall>k<length out. \<exists>i<length rows.
                    out ! k = to_ranked (k, rows ! i) \<and> out' ! k = to_ranked (k, rows' ! i))))"
proof -
  let ?df = "dropna_all (map invert_low_vol fs)"
  obtain rows where rows: "score_frame ?df = Inr rows"
    using score_frame_rows[of ?df] by blast
  obtain out where out: "rank_stocks a fs top_n = Inr out"
    using rank_stocks_total by blast
  have pos: "out ! k = to_ranked (k, sort_values a rows ! k) \<and> rank (out ! k) = int k + 1"
    if "k < length out" for k
    using rank_stocks_positions(1)[OF assms rows out that] by (simp add: to_ranked_simps)
  have len: "length out \<le> length rows"
  proof (cases out)
    case Nil
    then show ?thesis by simp
  next
    case (Cons r rs)
    then have "length out - 1 < length out" by simp
    from rank_stocks_positions(2)[OF assms rows out this] show ?thesis by simp
  qed
  have posall: "\<forall>k<length out. out ! k = to_ranked (k, sort_values a rows ! k) \<and> rank (out ! k) = int k + 1"
    by (intro allI impI) (rule pos)
  have det: "\<forall>fs'. map (\<lambda>s. (momentum s, quality s, low_vol s)) fs'
                = map (\<lambda>s. (momentum s, quality s, low_vol s)) fs \<longrightarrow>
          (\<exists>rows' out'. score_frame (dropna_all (map invert_low_vol fs')) = Inr rows'
             \<and> rank_stocks a fs' top_n = Inr out' \<and> length out' = length out
             \<and> (\<forall>k<length out. \<exists>i<length rows.
                    out ! k = to_ranked (k, rows ! i) \<and> out' ! k = to_ranked (k, rows' ! i)))"
  proof (intro allI impI)
    fix fs' :: "FactorScores list"
    assume "map (\<lambda>s. (momentum s, quality s, low_vol s)) fs'
                = map (\<lambda>s. (momentum s, quality s, low_vol s)) fs"
    then show "\<exists>rows' out'. score_frame (dropna_all (map invert_low_vol fs')) = Inr rows'
             \<and> rank_stocks a fs' top_n = Inr out' \<and> length out' = length out
             \<and> (\<forall>k<length out. \<exists>i<length rows.
                    out ! k = to_ranked (k, rows ! i) \<and> out' ! k = to_ranked (k, rows' ! i))"
      by (rule same_values_same_order[OF assms _ rows out])
  qed
  show ?thesis
    by (rule exI[of _ rows], rule exI[of _ out], intro conjI)
      (rule rows out sort_values_props(2)[OF assms] sort_values_props(3)[OF assms] len posall
        rank_stocks_scores_descending[OF assms rows out] det)+
qed

theorem ranking_descending_dense_witness:
  "valid_argsort stable_argsort
   \<and> rank_stocks stable_argsort mixed (Some 3) =
        Inr [\<lparr>rs_ticker = ''C'', composite_score = 2 / 5, momentum_z = 1, quality_z = 0,
              low_vol_z = 0, rank = 1\<rparr>,
             \<lparr>rs_ticker = ''B'', composite_score = 0, momentum_z = 0, quality_z = 0,
              low_vol_z = 0, rank = 2\<rparr>,
             \<lparr>rs_ticker = ''A'', composite_score = - (2 / 5), momentum_z = - 1, quality_z = 0,
              low_vol_z = 0, rank = 3\<rparr>]
   \<and> sorted (rev [2 / 5, 0, - (2 / 5 :: real)])"
proof -
  obtain out where out: "rank_stocks stable_argsort mixed (Some 3) = Inr out"
    "sorted (rev (map composite_score out))"
    using ranking_descending_dense[OF stable_argsort_valid, of mixed "Some 3"] by blast
  from out(1) have "out = [\<lparr>rs_ticker = ''C'', composite_score = 2 / 5, momentum_z = 1, quality_z = 0,
              low_vol_z = 0, rank = 1\<rparr>,
             \<lparr>rs_ticker = ''B'', composite_score = 0, momentum_z = 0, quality_z = 0,
              low_vol_z = 0, rank = 2\<rparr>,
             \<lparr>rs_ticker = ''A'', composite_score = - (2 / 5), momentum_z = - 1, quality_z = 0,
              low_vol_z = 0, rank = 3\<rparr>]"
    by (simp add: mixed_ranked)
  with out(2) have "sorted (rev [2 / 5, 0, - (2 / 5 :: real)])"
    by simp
  then show ?thesis
    using stable_argsort_valid mixed_ranked by simp
qed

lemma tied_df:
  "dropna_all (map invert_low_vol tied) =
     [make_score ''A'' (Some 0) (Some (1 / 2)) (Some (- (1 / 4))),
      make_score ''B'' (Some 0) (Some (1 / 2)) (Some (- (1 / 4))),
      make_score ''C'' (Some 2) (Some (1 / 2)) (Some (- (1 / 4))),
      make_score ''D'' (Some 3) (Some (1 / 2)) (Some (- (1 / 4)))]"
  by (simp add: tied_def make_score_def dropna_all_def all_missing_def invert_low_vol_def)

lemma tied_z:
  "zscore_col [Some 0, Some 0, Some 2, Some 3] = Inr [- (5 / 6), - (5 / 6), 1 / 2, 7 / 6]"
  "zscore_col [Some (1 / 2), Some (1 / 2), Some (1 / 2), Some (1 / 2)] = Inr [0, 0, 0, 0]"
  "zscore_col [Some (- (1 / 4)), Some (- (1 / 4)), Some (- (1 / 4)), Some (- (1 / 4))]
     = Inr [0, 0, 0, 0]"
proof -
  have s: "sqrt (9 / 4) = 3 / 2"
    by (rule real_sqrt_unique) (simp_all add: power2_eq_square)
  have sd: "series_std [Some 0, Some 0, Some 2, Some 3] = Some (3 / 2)"
    by (simp add: series_std_def sample_std_def dropna_def power2_eq_square s)
  have mn: "series_mean [Some 0, Some 0, Some 2, Some 3] = Some (5 / 4)"
    by (simp add: series_mean_def dropna_def)
  show "zscore_col [Some 0, Some 0, Some 2, Some 3] = Inr [- (5 / 6), - (5 / 6), 1 / 2, 7 / 6]"
    by (simp add: zscore_col_def sd mn series_div_def series_sub_def fillna_def)
  show "zscore_col [Some (1 / 2), Some (1 / 2), Some (1 / 2), Some (1 / 2)] = Inr [0, 0, 0, 0]"
    by (simp add: zscore_col_def series_std_def sample_std_def dropna_def numeral_eq_Suc)
  show "zscore_col [Some (- (1 / 4)), Some (- (1 / 4)), Some (- (1 / 4)), Some (- (1 / 4))]
     = Inr [0, 0, 0, 0]"
    by (simp add: zscore_col_def series_std_def sample_std_def dropna_def numeral_eq_Suc)
qed

lemma tied_frame:
  "score_frame (dropna_all (map invert_low_vol tied)) =
     Inr [\<lparr>row_ticker = ''A'', row_momentum_z = - (5 / 6), row_quality_z = 0, row_low_vol_z = 0,
           row_composite = - (1 / 3)\<rparr>,
          \<lparr>row_ticker = ''B'', row_momentum_z = - (5 / 6), row_quality_z = 0, row_low_vol_z = 0,
           row_composite = - (1 / 3)\<rparr>,
          \<lparr>row_ticker = ''C'', row_momentum_z = 1 / 2, row_quality_z = 0, row_low_vol_z = 0,
           row_composite = 1 / 5\<rparr>,
          \<lparr>row_ticker = ''D'', row_momentum_z = 7 / 6, row_quality_z = 0, row_low_vol_z = 0,
           row_composite = 7 / 15\<rparr>]"
  by (simp add: tied_df score_frame_def make_score_def tied_z build_row_def
      w_mom_def w_qua_def w_vol_def upt_rec[of 0] upt_rec[of 1] upt_rec[of 2] upt_rec[of 3]
      numeral_eq_Suc)

lemma tied_round4:
  "round4 (- (1 / 3)) = - (3333 / 10000)" "round4 (1 / 5) = 1 / 5"
  "round4 (7 / 15) = 4667 / 10000" "round4 (- (5 / 6)) = - (8333 / 10000)"
  "round4 (1 / 2) = 1 / 2" "round4 (7 / 6) = 11667 / 10000"
  by (simp_all add: round4_def round_half_even_def)

lemma tied_order:
  "tie_reversing_argsort [- (1 / 3), - (1 / 3), 1 / 5, 7 / 15] = [3, 2, 1, 0]"
  "stable_argsort [- (1 / 3), - (1 / 3), 1 / 5, 7 / 15] = [3, 2, 0, 1]"
  by (simp_all add: tie_reversing_argsort_def stable_argsort_def upt_rec[of 0] upt_rec[of 1]
      upt_rec[of 2] upt_rec[of 3] numeral_eq_Suc)

text \<open>
  C2 as stated fails: the claim has tied tickers in their input order. In \<open>tied\<close> the
  tickers \<open>A\<close> and \<open>B\<close> have the same factor values, so their composite scores are equal,
  and \<open>C\<close> and \<open>D\<close> score higher. The routine \<open>tie_reversing_argsort\<close> meets the contract
  of the sort, and with it the ranking is \<open>D\<close>, \<open>C\<close>, \<open>B\<close>, \<open>A\<close>: \<open>B\<close> comes before \<open>A\<close>.
  A sort that keeps the input order of equal keys would give \<open>D\<close>, \<open>C\<close>, \<open>A\<close>, \<open>B\<close>. The
  reversed order is what a trace of pandas gives on this input where numpy sorts float64
  keys with its vectorised quicksort, a bitonic sorting network: pandas reverses the keys,
  asks numpy for the ascending permutation and reverses the result, and the network
  returns the positions of the reversed keys \<open>[7/15, 1/5, -1/3, -1/3]\<close> as \<open>[3, 2, 1, 0]\<close>.
\<close>

theorem ties_not_in_input_order:
  "valid_argsort tie_reversing_argsort
   \<and> map ticker tied = [''A'', ''B'', ''C'', ''D'']
   \<and> momentum (tied ! 0) = momentum (tied ! 1)
   \<and> quality (tied ! 0) = quality (tied ! 1)
   \<and> low_vol (tied ! 0) = low_vol (tied ! 1)
   \<and> map row_composite (projr (score_frame (dropna_all (map invert_low_vol tied))))
       = [- (1 / 3), - (1 / 3), 1 / 5, 7 / 15]
   \<and> rank_stocks tie_reversing_argsort tied (Some 4) =
        Inr [\<lparr>rs_ticker = ''D'', composite_score = 4667 / 10000, momentum_z = 11667 / 10000,
              quality_z = 0, low_vol_z = 0, rank = 1\<rparr>,
             \<lparr>rs_ticker = ''C'', composite_score = 1 / 5, momentum_z = 1 / 2,
              quality_z = 0, low_vol_z = 0, rank = 2\<rparr>,
             \<lparr>rs_ticker = ''B'', composite_score = - (3333 / 10000), momentum_z = - (8333 / 10000),
              quality_z = 0, low_vol_z = 0, rank = 3\<rparr>,
             \<lparr>rs_ticker = ''A'', composite_score = - (3333 / 10000), momentum_z = - (8333 / 10000),
              quality_z = 0, low_vol_z = 0, rank = 4\<rparr>]"
proof -
  have ne: "tied \<noteq> []" "dropna_all (map invert_low_vol tied) \<noteq> []"
    by (simp_all add: tied_df) (simp add: tied_def)
  have r: "rank_stocks tie_reversing_argsort tied (Some 4) =
        Inr [\<lparr>rs_ticker = ''D'', composite_score = 4667 / 10000, momentum_z = 11667 / 10000,
              quality_z = 0, low_vol_z = 0, rank = 1\<rparr>,
             \<lparr>rs_ticker = ''C'', composite_score = 1 / 5, momentum_z = 1 / 2,
              quality_z = 0, low_vol_z = 0, rank = 2\<rparr>,
             \<lparr>rs_ticker = ''B'', composite_score = - (3333 / 10000), momentum_z = - (8333 / 10000),
              quality_z = 0, low_vol_z = 0, rank = 3\<rparr>,
             \<lparr>rs_ticker = ''A'', composite_score = - (3333 / 10000), momentum_z = - (8333 / 10000),
              quality_z = 0, low_vol_z = 0, rank = 4\<rparr>]"
    unfolding rank_stocks_def Let_def
    by (simp add: ne tied_frame sort_values_def tied_order head_def to_ranked_def round4_zero
        tied_round4 enumerate_eq_zip upt_rec[of 0] upt_rec[of 1] upt_rec[of 2] upt_rec[of 3]
        numeral_eq_Suc)
  have t: "map ticker tied = [''A'', ''B'', ''C'', ''D'']"
    by (simp add: tied_def make_score_def)
  have e: "momentum (tied ! 0) = momentum (tied ! 1)" "quality (tied ! 0) = quality (tied ! 1)"
    "low_vol (tied ! 0) = low_vol (tied ! 1)"
    by (simp_all add: tied_def make_score_def)
  have c: "map row_composite (projr (score_frame (dropna_all (map invert_low_vol tied))))
       = [- (1 / 3), - (1 / 3), 1 / 5, 7 / 15]"
    by (simp add: tied_frame)
  show ?thesis
    by (intro conjI tie_reversing_argsort_valid t e c r)
qed

section \<open>Factor engine: fetch failures\<close>

text \<open>
  C7. When the price-history fetch or the fundamentals fetch raises the data-unavailable
  error, \<open>score_single\<close> returns the record of the ticker with all three factors absent.
  When both fetches succeed, each factor is its own function of its own input: momentum
  and volatility of the prices, quality of the fundamentals, so that an absent factor
  leaves the other two as they are.
\<close>

theorem fetch_failure_gives_all_absent:
  "((\<exists>e. get_price_history dp tkr start_date end_date = Inl e)
      \<or> (\<exists>e. get_fundamentals dp tkr = Inl e) \<longrightarrow>
        score_single tkr dp start_date end_date
          = \<lparr>ticker = tkr, momentum = None, quality = None, low_vol = None\<rparr>)
   \<and> (\<forall>prices fundamentals.
         get_price_history dp tkr start_date end_date = Inr prices
         \<and> get_fundamentals dp tkr = Inr fundamentals \<longrightarrow>
           ticker (score_single tkr dp start_date end_date) = tkr
         \<and> momentum (score_single tkr dp start_date end_date) = compute_momentum prices
         \<and> quality (score_single tkr dp start_date end_date) = compute_quality fundamentals
         \<and> low_vol (score_single tkr dp start_date end_date) = compute_volatility prices)"
  by (auto simp: score_single_def split: sum.splits)

theorem fetch_failure_gives_all_absent_witness:
  "get_price_history failing_provider ''NOPX'' ''2023-01-01'' ''2024-01-01'' = Inl ''no prices''
   \<and> score_single ''NOPX'' failing_provider ''2023-01-01'' ''2024-01-01''
       = \<lparr>ticker = ''NOPX'', momentum = None, quality = None, low_vol = None\<rparr>
   \<and> get_fundamentals failing_provider ''NOFN'' = Inl ''no fundamentals''
   \<and> score_single ''NOFN'' failing_provider ''2023-01-01'' ''2024-01-01''
       = \<lparr>ticker = ''NOFN'', momentum = None, quality = None, low_vol = None\<rparr>
   \<and> get_price_history failing_provider ''OK'' ''2023-01-01'' ''2024-01-01'' = Inr rising
   \<and> get_fundamentals failing_provider ''OK'' = Inr (fund_of None None)
   \<and> quality (score_single ''OK'' failing_provider ''2023-01-01'' ''2024-01-01'') = None
   \<and> momentum (score_single ''OK'' failing_provider ''2023-01-01'' ''2024-01-01'') = Some 231"
proof -
  have p: "get_price_history failing_provider ''NOPX'' ''2023-01-01'' ''2024-01-01'' = Inl ''no prices''"
    and f: "get_fundamentals failing_provider ''NOFN'' = Inl ''no fundamentals''"
    and okp: "get_price_history failing_provider ''OK'' ''2023-01-01'' ''2024-01-01'' = Inr rising"
    and okf: "get_fundamentals failing_provider ''OK'' = Inr (fund_of None None)"
    by (simp_all add: failing_provider_def)
  have a: "score_single ''NOPX'' failing_provider ''2023-01-01'' ''2024-01-01''
       = \<lparr>ticker = ''NOPX'', momentum = None, quality = None, low_vol = None\<rparr>"
    using fetch_failure_gives_all_absent[of failing_provider "''NOPX''" "''2023-01-01''" "''2024-01-01''"] p
    by simp
  have b: "score_single ''NOFN'' failing_provider ''2023-01-01'' ''2024-01-01''
       = \<lparr>ticker = ''NOFN'', momentum = None, quality = None, low_vol = None\<rparr>"
    using fetch_failure_gives_all_absent[of failing_provider "''NOFN''" "''2023-01-01''" "''2024-01-01''"] f
    by simp
  have c: "quality (score_single ''OK'' failing_provider ''2023-01-01'' ''2024-01-01'') = compute_quality (fund_of None None)"
    "momentum (score_single ''OK'' failing_provider ''2023-01-01'' ''2024-01-01'') = compute_momentum rising"
    using fetch_failure_gives_all_absent[of failing_provider "''OK''" "''2023-01-01''" "''2024-01-01''"] okp okf
    by simp_all
  have q: "compute_quality (fund_of None None) = None"
    by (simp add: compute_quality_none_iff dict_get_fund_of)
  have m: "compute_momentum rising = Some 231"
    by (simp add: compute_momentum_def rising_def closes_frame_close MOMENTUM_LONG_WINDOW_DAYS_def
        MOMENTUM_SHORT_WINDOW_DAYS_def iloc_from_end_def)
  show ?thesis
    using p f okp okf a b c q m by simp
qed

section \<open>Hard screener\<close>

text \<open>
  C9. The checks run in the order price, market cap, average daily volume, debt to
  equity, and the result names the first one that fails: each later case below is under
  the hypothesis that the earlier checks passed. A missing price, market cap or volume
  fails; a missing debt to equity is not checked and the ticker passes. A fetch failure
  gives a failing result whose reason carries the error message. In every case there is
  a result.
\<close>

theorem screen_first_failing_check:
  "(\<forall>e. get_fundamentals dp tkr = Inl e \<longrightarrow>
        screen_single fmt str_of tkr dp
          = \<lparr>sr_ticker = tkr, passed = False, reason = ''Data unavailable: '' @ e\<rparr>)
   \<and> (\<forall>f. get_fundamentals dp tkr = Inr f \<longrightarrow>
        (dict_get f ''price'' = None \<longrightarrow>
           screen_single fmt str_of tkr dp
             = \<lparr>sr_ticker = tkr, passed = False, reason = ''Price unavailable''\<rparr>)
      \<and> (\<forall>price. dict_get f ''price'' = Some price \<and> price < 5 \<longrightarrow>
           screen_single fmt str_of tkr dp
             = \<lparr>sr_ticker = tkr, passed = False,
                reason = ''Price $'' @ fmt 2 price @ '' below minimum $'' @ str_of 5\<rparr>)
      \<and> (\<forall>price. dict_get f ''price'' = Some price \<and> 5 \<le> price \<longrightarrow>
           (dict_get f ''market_cap'' = None \<longrightarrow>
              screen_single fmt str_of tkr dp
                = \<lparr>sr_ticker = tkr, passed = False, reason = ''Market cap unavailable''\<rparr>)
         \<and> (\<forall>cap. dict_get f ''market_cap'' = Some cap \<and> cap < 2000000000 \<longrightarrow>
              screen_single fmt str_of tkr dp
                = \<lparr>sr_ticker = tkr, passed = False,
                   reason = ''Market cap $'' @ fmt 1 (cap / 1000000000)
                            @ ''B below minimum $'' @ fmt 1 2 @ ''B''\<rparr>)
         \<and> (\<forall>cap. dict_get f ''market_cap'' = Some cap \<and> 2000000000 \<le> cap \<longrightarrow>
              (dict_get f ''avg_daily_volume'' = None \<longrightarrow>
                 screen_single fmt str_of tkr dp
                   = \<lparr>sr_ticker = tkr, passed = False, reason = ''Average volume unavailable''\<rparr>)
            \<and> (\<forall>vol. dict_get f ''avg_daily_volume'' = Some vol \<and> vol < 5000000 \<longrightarrow>
                 screen_single fmt str_of tkr dp
                   = \<lparr>sr_ticker = tkr, passed = False,
                      reason = ''Avg daily volume $'' @ fmt 1 (vol / 1000000)
                               @ ''M below minimum $'' @ fmt 1 5 @ ''M''\<rparr>)
            \<and> (\<forall>vol. dict_get f ''avg_daily_volume'' = Some vol \<and> 5000000 \<le> vol \<longrightarrow>
                 (dict_get f ''debt_to_equity'' = None \<longrightarrow>
                    screen_single fmt str_of tkr dp
                      = \<lparr>sr_ticker = tkr, passed = True, reason = ''All filters passed''\<rparr>)
               \<and> (\<forall>dte. dict_get f ''debt_to_equity'' = Some dte \<and> 3 < dte \<longrightarrow>
                    screen_single fmt str_of tkr dp
                      = \<lparr>sr_ticker = tkr, passed = False,
                         reason = ''Debt/equity '' @ fmt 1 dte @ '' exceeds maximum '' @ str_of 3\<rparr>)
               \<and> (\<forall>dte. dict_get f ''debt_to_equity'' = Some dte \<and> dte \<le> 3 \<longrightarrow>
                    screen_single fmt str_of tkr dp
                      = \<lparr>sr_ticker = tkr, passed = True, reason = ''All filters passed''\<rparr>)))))"
  by (simp add: screen_single_def MIN_PRICE_def MIN_MARKET_CAP_def MIN_AVG_DAILY_VOLUME_USD_def
      MAX_DEBT_TO_EQUITY_def not_less)

lemma dict_get_fund_screen:
  "dict_get (fund_screen price cap vol dte) ''price'' = price"
  "dict_get (fund_screen price cap vol dte) ''market_cap'' = cap"
  "dict_get (fund_screen price cap vol dte) ''avg_daily_volume'' = vol"
  "dict_get (fund_screen price cap vol dte) ''debt_to_equity'' = dte"
  by (simp_all add: dict_get_def fund_screen_def)

lemma mock_provider_fetch:
  "get_fundamentals mock_provider ''GOOD''
     = Inr (fund_screen (Some 100) (Some 5000000000) (Some 10000000) (Some 1))"
  "get_fundamentals mock_provider ''NODTE''
     = Inr (fund_screen (Some 100) (Some 5000000000) (Some 10000000) None)"
  "get_fundamentals mock_provider ''PENY'' = Inr (fund_screen (Some 2) None None (Some 5))"
  "get_fundamentals mock_provider ''NOCAP'' = Inr (fund_screen (Some 100) None (Some 1) (Some 5))"
  "get_fundamentals mock_provider ''LEVR''
     = Inr (fund_screen (Some 100) (Some 5000000000) (Some 10000000) (Some 5))"
  "get_fundamentals mock_provider ''UNKN'' = Inl ''No mock data for UNKN''"
  by (simp_all add: mock_provider_def)

theorem screen_first_failing_check_witness:
  "screen_single fmt_table str_table ''UNKN'' mock_provider
     = \<lparr>sr_ticker = ''UNKN'', passed = False, reason = ''Data unavailable: No mock data for UNKN''\<rparr>
   \<and> screen_single fmt_table str_table ''PENY'' mock_provider
     = \<lparr>sr_ticker = ''PENY'', passed = False, reason = ''Price $2.00 below minimum $5.0''\<rparr>
   \<and> screen_single fmt_table str_table ''NOCAP'' mock_provider
     = \<lparr>sr_ticker = ''NOCAP'', passed = False, reason = ''Market cap unavailable''\<rparr>
   \<and> screen_single fmt_table str_table ''LEVR'' mock_provider
     = \<lparr>sr_ticker = ''LEVR'', passed = False, reason = ''Debt/equity 5.0 exceeds maximum 3.0''\<rparr>
   \<and> screen_single fmt_table str_table ''NODTE'' mock_provider
     = \<lparr>sr_ticker = ''NODTE'', passed = True, reason = ''All filters passed''\<rparr>
   \<and> screen_single fmt_table str_table ''GOOD'' mock_provider
     = \<lparr>sr_ticker = ''GOOD'', passed = True, reason = ''All filters passed''\<rparr>"
proof -
  have "screen_single fmt_table str_table ''UNKN'' mock_provider
     = \<lparr>sr_ticker = ''UNKN'', passed = False, reason = ''Data unavailable: No mock data for UNKN''\<rparr>"
    using screen_first_failing_check[of mock_provider "''UNKN''" fmt_table str_table]
    by (simp add: mock_provider_fetch)
  moreover have "screen_single fmt_table str_table ''PENY'' mock_provider
     = \<lparr>sr_ticker = ''PENY'', passed = False, reason = ''Price $2.00 below minimum $5.0''\<rparr>"
    using screen_first_failing_check[of mock_provider "''PENY''" fmt_table str_table]
    by (simp add: mock_provider_fetch dict_get_fund_screen fmt_table_def str_table_def)
  moreover have "screen_single fmt_table str_table ''NOCAP'' mock_provider
     = \<lparr>sr_ticker = ''NOCAP'', passed = False, reason = ''Market cap unavailable''\<rparr>"
    using screen_first_failing_check[of mock_provider "''NOCAP''" fmt_table str_table]
    by (simp add: mock_provider_fetch dict_get_fund_screen)
  moreover have "screen_single fmt_table str_table ''LEVR'' mock_provider
     = \<lparr>sr_ticker = ''LEVR'', passed = False, reason = ''Debt/equity 5.0 exceeds maximum 3.0''\<rparr>"
    using screen_first_failing_check[of mock_provider "''LEVR''" fmt_table str_table]
    by (simp add: mock_provider_fetch dict_get_fund_screen fmt_table_def str_table_def)
  moreover have "screen_single fmt_table str_table ''NODTE'' mock_provider
     = \<lparr>sr_ticker = ''NODTE'', passed = True, reason = ''All filters passed''\<rparr>"
    using screen_first_failing_check[of mock_provider "''NODTE''" fmt_table str_table]
    by (simp add: mock_provider_fetch dict_get_fund_screen)
  moreover have "screen_single fmt_table str_table ''GOOD'' mock_provider
     = \<lparr>sr_ticker = ''GOOD'', passed = True, reason = ''All filters passed''\<rparr>"
    using screen_first_failing_check[of mock_provider "''GOOD''" fmt_table str_table]
    by (simp add: mock_provider_fetch dict_get_fund_screen)
  ultimately show ?thesis by blast
qed

section \<open>Volatility\<close>























end
